theory Spec2Isabelle
  imports Complex_Main "HOL-Library.AList"
begin

section \<open>JavaScript numbers and values\<close>

text \<open>
  A JavaScript number is NaN, one of the two infinities, or a finite double. A finite
  double is embedded as the real number it denotes, and the result of an arithmetic
  operation is the exact result rounded to the nearest double, to the even significand at
  a tie (\<open>to_double\<close>): 53 bits of significand, exponents from -1022 to 1023, subnormal
  numbers below, an infinity from \<open>2\<^sup>1\<^sup>0\<^sup>2\<^sup>4\<close> on. The two zeros are one value here. The
  only operation of this file that tells them apart is a division by zero, and \<open>js_div\<close>
  gives no result where the sign of the zero decides.
\<close>

datatype jsnum = Fin real | NaN | PosInf | NegInf

datatype jsval = VNum jsnum | VStr string | VBool bool | VUndefined | VNull

definition signed_inf :: "bool \<Rightarrow> jsnum" where
  "signed_inf neg = (if neg then NegInf else PosInf)"

text \<open>The position of the leading bit of an integer from 1 on.\<close>

function floor_log2 :: "int \<Rightarrow> nat" where
  "floor_log2 n = (if n < 2 then 0 else Suc (floor_log2 (n div 2)))"
  by pat_completeness auto

termination
  by (relation "measure nat") auto

declare floor_log2.simps [simp del]

text \<open>
  The binary exponent of a number other than 0: the \<open>e\<close> with
  \<open>2\<^sup>e \<le> \<bar>x\<bar> < 2\<^sup>e\<^sup>+\<^sup>1\<close>.
\<close>

definition exponent :: "real \<Rightarrow> int" where
  "exponent x =
     (if 1 \<le> \<bar>x\<bar> then int (floor_log2 \<lfloor>\<bar>x\<bar>\<rfloor>)
      else - int (Suc (floor_log2 (\<lceil>1 / \<bar>x\<bar>\<rceil> - 1))))"

definition round_half_even :: "real \<Rightarrow> int" where
  "round_half_even t =
     (let f = \<lfloor>t\<rfloor> in
      if t - of_int f < 1 / 2 then f
      else if 1 / 2 < t - of_int f then f + 1
      else if even f then f else f + 1)"

definition to_double :: "real \<Rightarrow> jsnum" where
  "to_double x =
     (if x = 0 then Fin 0
      else (let ulp = 2 powi (max (exponent x) (- 1022) - 52);
                y = of_int (round_half_even (x / ulp)) * ulp
            in if 2 ^ 1024 \<le> \<bar>y\<bar> then signed_inf (x < 0) else Fin y))"

fun is_finite :: "jsnum \<Rightarrow> bool" where
  "is_finite (Fin q) = True"
| "is_finite NaN = False"
| "is_finite PosInf = False"
| "is_finite NegInf = False"

fun js_isNaN :: "jsnum \<Rightarrow> bool" where
  "js_isNaN NaN = True"
| "js_isNaN x = False"

fun js_neg :: "jsnum \<Rightarrow> jsnum" where
  "js_neg (Fin q) = Fin (- q)"
| "js_neg NaN = NaN"
| "js_neg PosInf = NegInf"
| "js_neg NegInf = PosInf"

fun js_add :: "jsnum \<Rightarrow> jsnum \<Rightarrow> jsnum" where
  "js_add (Fin a) (Fin b) = to_double (a + b)"
| "js_add NaN y = NaN"
| "js_add x NaN = NaN"
| "js_add PosInf NegInf = NaN"
| "js_add NegInf PosInf = NaN"
| "js_add PosInf y = PosInf"
| "js_add NegInf y = NegInf"
| "js_add x PosInf = PosInf"
| "js_add x NegInf = NegInf"

definition js_sub :: "jsnum \<Rightarrow> jsnum \<Rightarrow> jsnum" where
  "js_sub x y = js_add x (js_neg y)"

text \<open>The sign of a number that is neither NaN nor 0: \<open>True\<close> for a negative one.\<close>

fun js_negative :: "jsnum \<Rightarrow> bool" where
  "js_negative (Fin q) = (q < 0)"
| "js_negative NegInf = True"
| "js_negative x = False"

fun js_mul :: "jsnum \<Rightarrow> jsnum \<Rightarrow> jsnum" where
  "js_mul (Fin a) (Fin b) = to_double (a * b)"
| "js_mul NaN y = NaN"
| "js_mul x NaN = NaN"
| "js_mul (Fin a) y = (if a = 0 then NaN else signed_inf (js_negative (Fin a) \<noteq> js_negative y))"
| "js_mul x (Fin b) = (if b = 0 then NaN else signed_inf (js_negative x \<noteq> js_negative (Fin b)))"
| "js_mul x y = signed_inf (js_negative x \<noteq> js_negative y)"

text \<open>
  The quotient, or \<open>None\<close> where it is an infinity whose sign is the sign of a zero
  divisor.
\<close>

fun js_div :: "jsnum \<Rightarrow> jsnum \<Rightarrow> jsnum option" where
  "js_div (Fin a) (Fin b) =
     (if b = 0 then (if a = 0 then Some NaN else None) else Some (to_double (a / b)))"
| "js_div NaN y = Some NaN"
| "js_div x NaN = Some NaN"
| "js_div (Fin a) y = Some (Fin 0)"
| "js_div x (Fin b) =
     (if b = 0 then None else Some (signed_inf (js_negative x \<noteq> js_negative (Fin b))))"
| "js_div x y = Some NaN"

fun js_abs :: "jsnum \<Rightarrow> jsnum" where
  "js_abs (Fin q) = Fin \<bar>q\<bar>"
| "js_abs NaN = NaN"
| "js_abs x = PosInf"

text \<open>The relation \<open><\<close> of JavaScript on numbers: false as soon as one side is NaN.\<close>

fun js_lt :: "jsnum \<Rightarrow> jsnum \<Rightarrow> bool" where
  "js_lt (Fin a) (Fin b) = (a < b)"
| "js_lt NaN y = False"
| "js_lt x NaN = False"
| "js_lt x NegInf = False"
| "js_lt PosInf y = False"
| "js_lt NegInf y = True"
| "js_lt x PosInf = True"

text \<open>\<open>Math.max\<close> and \<open>Math.min\<close> on two numbers.\<close>

definition math_max :: "jsnum \<Rightarrow> jsnum \<Rightarrow> jsnum" where
  "math_max x y = (if js_isNaN x \<or> js_isNaN y then NaN else if js_lt x y then y else x)"

definition math_min :: "jsnum \<Rightarrow> jsnum \<Rightarrow> jsnum" where
  "math_min x y = (if js_isNaN x \<or> js_isNaN y then NaN else if js_lt y x then y else x)"

text \<open>Strict equality \<open>===\<close> of a number with a value.\<close>

fun num_strict_eq :: "jsnum \<Rightarrow> jsval \<Rightarrow> bool" where
  "num_strict_eq NaN v = False"
| "num_strict_eq x (VNum y) = (x = y)"
| "num_strict_eq x v = False"

text \<open>Truthiness, as the operator \<open>||\<close> uses it.\<close>

fun truthy :: "jsval \<Rightarrow> bool" where
  "truthy (VNum (Fin q)) = (q \<noteq> 0)"
| "truthy (VNum NaN) = False"
| "truthy (VNum x) = True"
| "truthy (VStr s) = (s \<noteq> [])"
| "truthy (VBool b) = b"
| "truthy VUndefined = False"
| "truthy VNull = False"

section \<open>Reading numbers from strings\<close>

text \<open>
  A string is a list of code units below 256. White space, for \<open>\s\<close> in a regular
  expression as for the trimming of \<open>parseFloat\<close> and \<open>ToNumber\<close>, is tab, line feed,
  vertical tab, form feed, carriage return, space and the no-break space; a word character
  (\<open>\w\<close>) is an ASCII letter, a digit or the underscore.
\<close>

definition is_digit :: "char \<Rightarrow> bool" where
  "is_digit c = (c \<in> set ''0123456789'')"

definition digit_val :: "char \<Rightarrow> nat" where
  "digit_val c = of_char c - 48"

definition is_space :: "char \<Rightarrow> bool" where
  "is_space c = (of_char c \<in> {9, 10, 11, 12, 13, 32, 160 :: nat})"

definition digits_val :: "string \<Rightarrow> nat" where
  "digits_val ds = foldl (\<lambda>n c. 10 * n + digit_val c) 0 ds"

definition starts_with :: "string \<Rightarrow> string \<Rightarrow> bool" where
  "starts_with p s = (take (length p) s = p)"

text \<open>ASCII lower case, as the page applies it to the keywords of an attribute.\<close>

definition lower_char :: "char \<Rightarrow> char" where
  "lower_char c = (let n = (of_char c :: nat) in if 65 \<le> n \<and> n \<le> 90 then char_of (n + 32) else c)"

definition lower :: "string \<Rightarrow> string" where
  "lower s = map lower_char s"

text \<open>
  The exponent part of a decimal literal, read from the front of a string: its value and
  the rest. Without digits after the \<open>e\<close> there is no exponent part.
\<close>

definition exponent_part :: "string \<Rightarrow> int \<times> string" where
  "exponent_part s =
     (case s of
        [] \<Rightarrow> (0, s)
      | c # r \<Rightarrow>
          if c = CHR ''e'' \<or> c = CHR ''E'' then
            (let (neg, r1) =
                   (case r of
                      [] \<Rightarrow> (False, r)
                    | d # r' \<Rightarrow> if d = CHR ''-'' then (True, r') else if d = CHR ''+'' then (False, r') else (False, r));
                 ds = takeWhile is_digit r1
             in if ds = [] then (0, s)
                else ((if neg then - int (digits_val ds) else int (digits_val ds)), dropWhile is_digit r1))
          else (0, s))"

definition scale10 :: "real \<Rightarrow> int \<Rightarrow> real" where
  "scale10 q e = (if 0 \<le> e then q * 10 ^ nat e else q / 10 ^ nat (- e))"

text \<open>
  An unsigned decimal literal (digits, fraction, exponent) read from the front of a
  string: the number it denotes and the rest, or \<open>None\<close> when no literal starts there.
\<close>

definition unsigned_decimal :: "string \<Rightarrow> (real \<times> string) option" where
  "unsigned_decimal s =
     (let ip = takeWhile is_digit s; r1 = dropWhile is_digit s;
          (fp, r2) = (case r1 of
                        [] \<Rightarrow> ([], r1)
                      | c # r \<Rightarrow> if c = CHR ''.'' then (takeWhile is_digit r, dropWhile is_digit r) else ([], r1))
      in if ip = [] \<and> fp = [] then None
         else (let (e, r3) = exponent_part r2;
                   m = of_nat (digits_val ip) + of_nat (digits_val fp) / 10 ^ length fp
               in Some (scale10 m e, r3)))"

text \<open>
  A signed decimal literal or \<open>Infinity\<close> read from the front of a string
  (\<open>StrDecimalLiteral\<close>).
\<close>

definition str_decimal :: "string \<Rightarrow> (jsnum \<times> string) option" where
  "str_decimal s =
     (let (neg, r) = (case s of
                        [] \<Rightarrow> (False, s)
                      | c # r' \<Rightarrow> if c = CHR ''-'' then (True, r') else if c = CHR ''+'' then (False, r') else (False, s))
      in if starts_with ''Infinity'' r then Some (signed_inf neg, drop 8 r)
         else (case unsigned_decimal r of
                 None \<Rightarrow> None
               | Some (q, rest) \<Rightarrow> Some (to_double (if neg then - q else q), rest)))"

definition parseFloat :: "string \<Rightarrow> jsnum" where
  "parseFloat s = (case str_decimal (dropWhile is_space s) of None \<Rightarrow> NaN | Some (x, rest) \<Rightarrow> x)"

text \<open>Literals in another base: \<open>0x\<close>, \<open>0o\<close>, \<open>0b\<close>.\<close>

definition hex_val :: "char \<Rightarrow> nat option" where
  "hex_val c =
     (let n = of_char c in
      if 48 \<le> n \<and> n \<le> 57 then Some (n - 48)
      else if 97 \<le> n \<and> n \<le> 102 then Some (n - 87)
      else if 65 \<le> n \<and> n \<le> 70 then Some (n - 55)
      else None)"

definition based_digits :: "nat \<Rightarrow> string \<Rightarrow> jsnum" where
  "based_digits b ds =
     (if ds \<noteq> [] \<and> list_all (\<lambda>c. case hex_val c of None \<Rightarrow> False | Some d \<Rightarrow> d < b) ds
      then to_double (of_nat (foldl (\<lambda>n c. b * n + the (hex_val c)) 0 ds))
      else NaN)"

definition trim :: "string \<Rightarrow> string" where
  "trim s = rev (dropWhile is_space (rev (dropWhile is_space s)))"

text \<open>\<open>ToNumber\<close> on a string: the whole trimmed string has to be a numeric literal.\<close>

definition string_to_number :: "string \<Rightarrow> jsnum" where
  "string_to_number s =
     (let t = trim s in
      if t = [] then Fin 0
      else if starts_with ''0x'' t \<or> starts_with ''0X'' t then based_digits 16 (drop 2 t)
      else if starts_with ''0o'' t \<or> starts_with ''0O'' t then based_digits 8 (drop 2 t)
      else if starts_with ''0b'' t \<or> starts_with ''0B'' t then based_digits 2 (drop 2 t)
      else (case str_decimal t of
              Some (x, rest) \<Rightarrow> if rest = [] then x else NaN
            | None \<Rightarrow> NaN))"

fun to_number :: "jsval \<Rightarrow> jsnum" where
  "to_number (VNum x) = x"
| "to_number (VStr s) = string_to_number s"
| "to_number (VBool b) = (if b then Fin 1 else Fin 0)"
| "to_number VUndefined = NaN"
| "to_number VNull = Fin 0"

text \<open>The global \<open>isFinite\<close>: it converts its argument to a number first.\<close>

definition isFinite :: "jsval \<Rightarrow> bool" where
  "isFinite v = is_finite (to_number v)"

subsection \<open>Util.parseNumeric\<close>

text \<open>
  The string branch removes every run of characters other than digits, \<open>.\<close> and \<open>-\<close>
  and reads the rest with \<open>parseFloat\<close>. The last branch is reached by a number only:
  \<open>parseFloat\<close> of a number reads the number's own string form, which denotes the number.
\<close>

definition clean_numeric :: "string \<Rightarrow> string" where
  "clean_numeric s = filter (\<lambda>c. is_digit c \<or> c = CHR ''.'' \<or> c = CHR ''-'') s"

fun parseNumeric :: "jsval \<Rightarrow> jsnum" where
  "parseNumeric VUndefined = Fin 0"
| "parseNumeric VNull = Fin 0"
| "parseNumeric (VBool b) = (if b then Fin 1 else Fin 0)"
| "parseNumeric (VStr s) =
     (if s = [] then Fin 0
      else (let num = parseFloat (clean_numeric s) in if is_finite num then num else Fin 0))"
| "parseNumeric (VNum x) = (if is_finite x then x else Fin 0)"

section \<open>The formula engine\<close>

subsection \<open>Number.prototype.toFixed\<close>

text \<open>
  \<open>ToIntegerOrInfinity\<close> of the digits argument, then the range check of \<open>toFixed\<close>
  (a RangeError outside 0..100). For a number below \<open>10\<^sup>2\<^sup>1\<close> in magnitude the string is
  the decimal expansion of \<open>n / 10\<^sup>f\<close> with \<open>n\<close> the integer closest to the scaled
  magnitude, the larger one at a tie; from \<open>10\<^sup>2\<^sup>1\<close> on it is the number's own string
  form. The string itself is not built: \<open>fixed_value\<close> is the number the string denotes,
  which \<open>parseFloat\<close> then reads back as the nearest double.
\<close>

fun to_integer_or_infinity :: "jsnum \<Rightarrow> jsnum" where
  "to_integer_or_infinity NaN = Fin 0"
| "to_integer_or_infinity (Fin q) = Fin (of_int (if 0 \<le> q then \<lfloor>q\<rfloor> else \<lceil>q\<rceil>))"
| "to_integer_or_infinity x = x"

definition fixed_value :: "real \<Rightarrow> nat \<Rightarrow> real" where
  "fixed_value x f =
     (if 10 ^ 21 \<le> \<bar>x\<bar> then x
      else sgn x * of_int \<lfloor>\<bar>x\<bar> * 10 ^ f + 1 / 2\<rfloor> / 10 ^ f)"

definition toFixed :: "real \<Rightarrow> jsnum \<Rightarrow> real option" where
  "toFixed x digits =
     (case to_integer_or_infinity digits of
        Fin f \<Rightarrow> if f < 0 \<or> 100 < f then None else Some (fixed_value x (nat \<lfloor>f\<rfloor>))
      | _ \<Rightarrow> None)"

subsection \<open>FormulaEngine.evaluate\<close>

text \<open>
  The formula is run by the JavaScript engine: \<open>new Function(...keys, body)\<close> builds a
  function from the context's keys and the sanitised text, and the call passes the
  context's values. That step is the parameter \<open>host\<close>: for a sanitised formula and a
  context it throws, returns a primitive value, or returns an object. Of an object,
  \<open>evaluate\<close> uses two things: the number that \<open>isFinite\<close> converts it to (\<open>None\<close> when
  the conversion throws), and what calling its property \<open>toFixed\<close> with the configured
  digits does: there is nothing to call, the call throws, or it returns a value, of which
  \<open>parseFloat\<close> reads the string form. A result that is a BigInt or a symbol makes
  \<open>isFinite\<close> throw; it counts as \<open>Throws\<close>.

  What the engine answers can depend on more than the text and the context
  (\<open>Math.random()\<close>, the time, globals of the page), so an \<open>engine\<close> gives one \<open>host\<close>
  for each call, the calls numbered in the order in which a calculator makes them. A
  primitive result whose prototype the page has given a \<open>toFixed\<close> of its own behaves
  like an object here.
\<close>

datatype call_result = NotCallable | CallThrows | CallReturns string

record jsobject =
  as_number :: "jsnum option"
  call_toFixed :: call_result

datatype jsresult = Throws | Returns jsval | ReturnsObject jsobject

type_synonym bindings = "(string \<times> jsval) list"

type_synonym host = "string \<Rightarrow> bindings \<Rightarrow> jsresult"

type_synonym engine = "nat \<Rightarrow> host"

definition is_word :: "char \<Rightarrow> bool" where
  "is_word c =
     (let n = (of_char c :: nat) in
      (48 \<le> n \<and> n \<le> 57) \<or> (65 \<le> n \<and> n \<le> 90) \<or> (97 \<le> n \<and> n \<le> 122) \<or> n = 95)"

definition sanitize :: "string \<Rightarrow> string" where
  "sanitize formula = filter (\<lambda>c. is_word c \<or> is_space c \<or> c \<in> set ''+-*/.()%,'') formula"

definition evaluate :: "host \<Rightarrow> jsnum \<Rightarrow> string \<Rightarrow> bindings \<Rightarrow> jsnum" where
  "evaluate run decimal_input formula context =
     (let sanitizedFormula = sanitize formula in
      case run sanitizedFormula context of
        Throws \<Rightarrow> Fin 0
      | Returns result \<Rightarrow>
          if \<not> isFinite result then Fin 0
          else (case result of
                  VNum (Fin x) \<Rightarrow>
                    (case toFixed x decimal_input of
                       None \<Rightarrow> Fin 0
                     | Some y \<Rightarrow> to_double y)
                | _ \<Rightarrow> Fin 0)
      | ReturnsObject result \<Rightarrow>
          (case as_number result of
             None \<Rightarrow> Fin 0
           | Some n \<Rightarrow>
               if \<not> is_finite n then Fin 0
               else (case call_toFixed result of
                       NotCallable \<Rightarrow> Fin 0
                     | CallThrows \<Rightarrow> Fin 0
                     | CallReturns str \<Rightarrow> parseFloat str)))"

subsection \<open>The arithmetic fragment of the host\<close>

text \<open>
  What the engine does is known here for a fragment only: contexts of at most 256 distinct
  keys that are plain identifiers bound to numbers, and formulas of at most 256 characters
  built from decimal literals without exponent, those identifiers, \<open>+ - * /\<close>, unary
  signs, parentheses, spaces and tabs, in which no quotient has a zero divisor that
  decides a sign. On it \<open>js_arith\<close> gives the engine's result, every operation rounded
  to the nearest double; everywhere else it is \<open>None\<close>, which says nothing about the
  engine.
\<close>

datatype token = TNum real | TId string | TPlus | TMinus | TStar | TSlash | TLPar | TRPar

definition is_id_start :: "char \<Rightarrow> bool" where
  "is_id_start c = (is_word c \<and> \<not> is_digit c)"

definition lex_number :: "string \<Rightarrow> (real \<times> string) option" where
  "lex_number s =
     (let ip = takeWhile is_digit s; r1 = dropWhile is_digit s;
          (dot, fp, r2) = (case r1 of
                        [] \<Rightarrow> (False, [], r1)
                      | c # r \<Rightarrow> if c = CHR ''.'' then (True, takeWhile is_digit r, dropWhile is_digit r)
                                 else (False, [], r1))
      in if ip = [] \<and> fp = [] then None
         else if 1 < length ip \<and> hd ip = CHR ''0'' then None
         else if (case r2 of [] \<Rightarrow> False | c # r \<Rightarrow> is_word c \<or> c = CHR ''.'') then None
         else Some (of_nat (digits_val ip) + of_nat (digits_val fp) / 10 ^ length fp, r2))"

text \<open>
  The first token of a non-empty text and the rest of the text; no token for a space or a
  tab. \<open>++\<close>, \<open>--\<close>, \<open>**\<close> and the comment openers are outside the fragment.
\<close>

definition next_token :: "char \<Rightarrow> string \<Rightarrow> (token option \<times> string) option" where
  "next_token c cs =
     (if c = CHR '' '' \<or> c = CHR 0x09 then Some (None, cs)
      else if c = CHR ''+'' then (if starts_with ''+'' cs then None else Some (Some TPlus, cs))
      else if c = CHR ''-'' then (if starts_with ''-'' cs then None else Some (Some TMinus, cs))
      else if c = CHR ''*'' then (if starts_with ''*'' cs then None else Some (Some TStar, cs))
      else if c = CHR ''/'' then
        (if starts_with ''/'' cs \<or> starts_with ''*'' cs then None else Some (Some TSlash, cs))
      else if c = CHR ''('' then Some (Some TLPar, cs)
      else if c = CHR '')'' then Some (Some TRPar, cs)
      else if is_digit c \<or> c = CHR ''.'' then
        (case lex_number (c # cs) of
           None \<Rightarrow> None
         | Some (q, rest) \<Rightarrow> Some (Some (TNum q), rest))
      else if is_id_start c then
        Some (Some (TId (takeWhile is_word (c # cs))), dropWhile is_word cs)
      else None)"

text \<open>The natural number bounds the number of steps; the length of the text is enough.\<close>

fun lex :: "nat \<Rightarrow> string \<Rightarrow> token list option" where
  "lex n [] = Some []"
| "lex 0 (c # cs) = None"
| "lex (Suc n) (c # cs) =
     (case next_token c cs of
        None \<Rightarrow> None
      | Some (t, rest) \<Rightarrow>
          (case lex n rest of
             None \<Rightarrow> None
           | Some ts \<Rightarrow> Some (case t of None \<Rightarrow> ts | Some tok \<Rightarrow> tok # ts)))"

datatype expr =
    Lit real
  | Var string
  | Neg expr
  | Pos expr
  | Add expr expr
  | Sub expr expr
  | Mul expr expr
  | Div expr expr

text \<open>
  Recursive descent with the precedences of JavaScript; the natural number bounds the
  depth of the descent. A result is the expression and the tokens after it.
\<close>

fun parse_unary :: "nat \<Rightarrow> token list \<Rightarrow> (expr \<times> token list) option"
  and mul_rest :: "nat \<Rightarrow> expr \<Rightarrow> token list \<Rightarrow> (expr \<times> token list) option"
  and add_rest :: "nat \<Rightarrow> expr \<Rightarrow> token list \<Rightarrow> (expr \<times> token list) option"
where
  "parse_unary 0 ts = None"
| "parse_unary (Suc n) ts =
     (case ts of
        [] \<Rightarrow> None
      | t # r0 \<Rightarrow>
          (case t of
             TNum q \<Rightarrow> Some (Lit q, r0)
           | TId x \<Rightarrow> Some (Var x, r0)
           | TMinus \<Rightarrow> (case parse_unary n r0 of None \<Rightarrow> None | Some (e, r) \<Rightarrow> Some (Neg e, r))
           | TPlus \<Rightarrow> (case parse_unary n r0 of None \<Rightarrow> None | Some (e, r) \<Rightarrow> Some (Pos e, r))
           | TLPar \<Rightarrow>
               (case parse_unary n r0 of
                  None \<Rightarrow> None
                | Some (e, r) \<Rightarrow>
                    (case mul_rest n e r of
                       None \<Rightarrow> None
                     | Some (e1, r1) \<Rightarrow>
                         (case add_rest n e1 r1 of
                            None \<Rightarrow> None
                          | Some (e2, r2) \<Rightarrow>
                              (case r2 of
                                 [] \<Rightarrow> None
                               | t2 # r3 \<Rightarrow> if t2 = TRPar then Some (e2, r3) else None))))
           | _ \<Rightarrow> None))"
| "mul_rest 0 lhs ts = None"
| "mul_rest (Suc n) lhs ts =
     (case ts of
        [] \<Rightarrow> Some (lhs, ts)
      | t # r0 \<Rightarrow>
          if t = TStar then
            (case parse_unary n r0 of None \<Rightarrow> None | Some (e, r) \<Rightarrow> mul_rest n (Mul lhs e) r)
          else if t = TSlash then
            (case parse_unary n r0 of None \<Rightarrow> None | Some (e, r) \<Rightarrow> mul_rest n (Div lhs e) r)
          else Some (lhs, ts))"
| "add_rest 0 lhs ts = None"
| "add_rest (Suc n) lhs ts =
     (case ts of
        [] \<Rightarrow> Some (lhs, ts)
      | t # r0 \<Rightarrow>
          if t = TPlus then
            (case parse_unary n r0 of
               None \<Rightarrow> None
             | Some (e, r) \<Rightarrow>
                 (case mul_rest n e r of None \<Rightarrow> None | Some (e1, r1) \<Rightarrow> add_rest n (Add lhs e1) r1))
          else if t = TMinus then
            (case parse_unary n r0 of
               None \<Rightarrow> None
             | Some (e, r) \<Rightarrow>
                 (case mul_rest n e r of None \<Rightarrow> None | Some (e1, r1) \<Rightarrow> add_rest n (Sub lhs e1) r1))
          else Some (lhs, ts))"

definition parse :: "token list \<Rightarrow> expr option" where
  "parse ts =
     (let n = 2 * length ts + 2 in
      case parse_unary n ts of
        None \<Rightarrow> None
      | Some (e, r) \<Rightarrow>
          (case mul_rest n e r of
             None \<Rightarrow> None
           | Some (e1, r1) \<Rightarrow>
               (case add_rest n e1 r1 of
                  None \<Rightarrow> None
                | Some (e2, r2) \<Rightarrow> if r2 = [] then Some e2 else None)))"

fun eval_expr :: "bindings \<Rightarrow> expr \<Rightarrow> jsnum option" where
  "eval_expr ctx (Lit q) = Some (to_double q)"
| "eval_expr ctx (Var x) = (case map_of ctx x of Some (VNum v) \<Rightarrow> Some v | _ \<Rightarrow> None)"
| "eval_expr ctx (Neg e) = map_option js_neg (eval_expr ctx e)"
| "eval_expr ctx (Pos e) = eval_expr ctx e"
| "eval_expr ctx (Add a b) =
     (case (eval_expr ctx a, eval_expr ctx b) of (Some x, Some y) \<Rightarrow> Some (js_add x y) | _ \<Rightarrow> None)"
| "eval_expr ctx (Sub a b) =
     (case (eval_expr ctx a, eval_expr ctx b) of (Some x, Some y) \<Rightarrow> Some (js_sub x y) | _ \<Rightarrow> None)"
| "eval_expr ctx (Mul a b) =
     (case (eval_expr ctx a, eval_expr ctx b) of (Some x, Some y) \<Rightarrow> Some (js_mul x y) | _ \<Rightarrow> None)"
| "eval_expr ctx (Div a b) =
     (case (eval_expr ctx a, eval_expr ctx b) of (Some x, Some y) \<Rightarrow> js_div x y | _ \<Rightarrow> None)"

text \<open>
  A key can be a parameter name when it is an identifier and no word the language keeps
  for itself in some mode.
\<close>

definition reserved_words :: "string list" where
  "reserved_words =
     [''arguments'', ''async'', ''await'', ''break'', ''case'', ''catch'', ''class'', ''const'',
      ''continue'', ''debugger'', ''default'', ''delete'', ''do'', ''else'', ''enum'', ''eval'',
      ''export'', ''extends'', ''false'', ''finally'', ''for'', ''function'', ''if'',
      ''implements'', ''import'', ''in'', ''instanceof'', ''interface'', ''let'', ''new'',
      ''null'', ''of'', ''package'', ''private'', ''protected'', ''public'', ''return'',
      ''static'', ''super'', ''switch'', ''this'', ''throw'', ''true'', ''try'', ''typeof'',
      ''var'', ''void'', ''while'', ''with'', ''yield'']"

definition plain_identifier :: "string \<Rightarrow> bool" where
  "plain_identifier k =
     (case k of
        [] \<Rightarrow> False
      | c # cs \<Rightarrow> is_id_start c \<and> list_all is_word cs \<and> k \<notin> set reserved_words)"

definition js_arith :: "string \<Rightarrow> bindings \<Rightarrow> jsresult option" where
  "js_arith body ctx =
     (if 256 < length body \<or> 256 < length ctx \<or>
         \<not> distinct (map fst ctx) \<or> \<not> list_all plain_identifier (map fst ctx) then None
      else (case lex (length body) body of
              None \<Rightarrow> None
            | Some ts \<Rightarrow>
                (case parse ts of
                   None \<Rightarrow> None
                 | Some e \<Rightarrow> map_option (\<lambda>v. Returns (VNum v)) (eval_expr ctx e))))"

definition agrees :: "host \<Rightarrow> bool" where
  "agrees run = (\<forall>body ctx r. js_arith body ctx = Some r \<longrightarrow> run body ctx = r)"

text \<open>
  A host that throws on everything outside the fragment, for concrete runs, and the engine
  that answers every call with it.
\<close>

definition arith_host :: host where
  "arith_host body ctx = (case js_arith body ctx of Some r \<Rightarrow> r | None \<Rightarrow> Throws)"

definition arith_engine :: engine where
  "arith_engine t = arith_host"

section \<open>Elements of the page\<close>

text \<open>
  An element of the calculator's container, reduced to what the engine reads and writes:
  the tag name (in lower case), the attributes, the properties \<open>value\<close>, \<open>checked\<close> and
  \<open>type\<close>, the marker \<open>_alphaCalcInitialized\<close> and the values of its options (of a
  select; the list is empty for an element that has none). Elements are referred to by
  their position in the container.
\<close>

record element =
  tagName :: string
  attributes :: "(string \<times> string) list"
  el_value :: jsval
  checked :: bool
  el_type :: string
  initialized :: bool
  options :: "string list"

definition getAttribute :: "element \<Rightarrow> string \<Rightarrow> string option" where
  "getAttribute e a = map_of (attributes e) a"

definition hasAttribute :: "element \<Rightarrow> string \<Rightarrow> bool" where
  "hasAttribute e a = (getAttribute e a \<noteq> None)"

text \<open>The property \<open>name\<close> reflects the attribute; it is empty without it.\<close>

definition el_name :: "element \<Rightarrow> string" where
  "el_name e = (case getAttribute e ''name'' of None \<Rightarrow> [] | Some n \<Rightarrow> n)"

text \<open>
  What is written to the property \<open>value\<close> is kept as a string by the page. A number is
  kept here as the number and no string is built for it: what the page reads back from a
  number that it prints with an exponent, or that the type of the input refuses, is not
  followed. The other values become the strings the page would hold.
\<close>

fun dom_string :: "jsval \<Rightarrow> jsval" where
  "dom_string (VNum x) = VNum x"
| "dom_string (VStr s) = VStr s"
| "dom_string (VBool b) = VStr (if b then ''true'' else ''false'')"
| "dom_string VUndefined = VStr ''undefined''"
| "dom_string VNull = VStr []"

subsection \<open>InputManager: reading an element\<close>

text \<open>\<open>getCellId\<close>; the flag is \<open>config.features.allowLegacyAttributes\<close>.\<close>

definition getCellId :: "bool \<Rightarrow> element \<Rightarrow> string option" where
  "getCellId legacy e =
     (if hasAttribute e ''data-alphacalc-input'' \<and> getAttribute e ''data-alphacalc-input'' \<noteq> Some []
      then getAttribute e ''data-alphacalc-input''
      else if legacy \<and> hasAttribute e ''data-alphacalc-cell''
      then getAttribute e ''data-alphacalc-cell''
      else None)"

text \<open>The callers go on only with a cell id that is neither null nor empty.\<close>

definition cell_of :: "bool \<Rightarrow> element \<Rightarrow> string option" where
  "cell_of legacy e =
     (case getCellId legacy e of None \<Rightarrow> None | Some c \<Rightarrow> if c = [] then None else Some c)"

definition getElementType :: "element \<Rightarrow> string" where
  "getElementType e =
     (case getAttribute e ''data-alphacalc-element'' of
        Some explicitType \<Rightarrow>
          if explicitType \<in> set [''input'', ''select'', ''radio'', ''checkbox''] then explicitType
          else if tagName e = ''select'' then ''select''
          else if tagName e = ''input'' then
            (if getAttribute e ''type'' = Some ''radio'' then ''radio''
             else if getAttribute e ''type'' = Some ''checkbox'' then ''checkbox''
             else ''input'')
          else ''input''
      | None \<Rightarrow>
          if tagName e = ''select'' then ''select''
          else if tagName e = ''input'' then
            (if getAttribute e ''type'' = Some ''radio'' then ''radio''
             else if getAttribute e ''type'' = Some ''checkbox'' then ''checkbox''
             else ''input'')
          else ''input'')"

definition is_toggle :: "string \<Rightarrow> bool" where
  "is_toggle elementType = (elementType = ''radio'' \<or> elementType = ''checkbox'')"

definition getSelectValue :: "element \<Rightarrow> jsnum" where
  "getSelectValue e =
     (if el_value e = VStr [] \<or> el_value e = VNull then
        (case getAttribute e ''data-alphacalc-default'' of
           Some d \<Rightarrow> parseNumeric (VStr d)
         | None \<Rightarrow>
             (case find (\<lambda>opt. opt \<noteq> []) (options e) of
                Some opt \<Rightarrow> parseNumeric (VStr opt)
              | None \<Rightarrow> Fin 0))
      else parseNumeric (el_value e))"

definition getToggleValue :: "element \<Rightarrow> jsnum" where
  "getToggleValue e =
     (if \<not> checked e then Fin 0
      else (case getAttribute e ''data-alphacalc-value'' of
              Some v \<Rightarrow> parseNumeric (VStr v)
            | None \<Rightarrow> parseNumeric (el_value e)))"

definition clampValue :: "jsnum \<Rightarrow> element \<Rightarrow> jsnum" where
  "clampValue v e =
     (let r1 = (case getAttribute e ''data-alphacalc-min'' of
                  None \<Rightarrow> v
                | Some a \<Rightarrow> (let min = parseFloat a in if \<not> js_isNaN min then math_max v min else v))
      in (case getAttribute e ''data-alphacalc-max'' of
            None \<Rightarrow> r1
          | Some a \<Rightarrow> (let max = parseFloat a in if \<not> js_isNaN max then math_min r1 max else r1)))"

definition getElementValue :: "element \<Rightarrow> jsnum" where
  "getElementValue e =
     (let elementType = getElementType e;
          v = (if elementType = ''select'' then getSelectValue e
               else if is_toggle elementType then getToggleValue e
               else (let useDataValue =
                           (hasAttribute e ''data-alphacalc-value'' \<and>
                            (\<not> initialized e \<or> \<not> (el_type e = ''text'' \<or> el_type e = ''number'')))
                     in if useDataValue
                        then parseNumeric (case getAttribute e ''data-alphacalc-value'' of
                                             Some a \<Rightarrow> VStr a | None \<Rightarrow> VNull)
                        else parseNumeric (el_value e)))
      in clampValue v e)"

section \<open>The calculator\<close>

text \<open>
  The state of one calculator: the configuration that the engine reads, the container's
  elements, the value store \<open>inputValues\<close> (a \<open>Map\<close>, kept in insertion order), the
  element of each cell, the formula inputs in registration order, the handlers that
  \<open>attachListener\<close> put on elements, the groups, the group handlers subscribed to
  \<open>value:changed\<close> (the cell id each one captured and its group, in subscription order),
  the custom calculations, the log of the \<open>value:changed\<close> events emitted so far,
  whether the debounce timer is armed, and the number of calls made to the engine. Output
  getters, setters and submit buttons are adapters outside this model: the state has no
  subscriber of theirs, so it is the state of a calculator on a page without output
  getters (\<open>getter_free\<close> below), with no handler added by the page's own scripts.
\<close>

record group =
  g_elements :: "nat list"
  isRadioGroup :: bool
  g_value :: jsnum

record listener =
  l_element :: nat
  l_elementType :: string
  l_cellId :: string

record calc =
  decimal_input :: jsnum
  autoCalculate :: bool
  allowLegacyAttributes :: bool
  dom :: "element list"
  inputValues :: "(string \<times> jsval) list"
  inputElements :: "(string \<times> nat) list"
  formulaInputs :: "nat list"
  listeners :: "listener list"
  groups :: "(string \<times> group) list"
  subscriptions :: "(string \<times> string) list"
  calculations :: "((string \<times> jsval) list \<Rightarrow> (string \<times> jsval) list) list"
  emitted :: "(string \<times> jsval) list"
  pending :: bool
  ticks :: nat

text \<open>The elements behind a list of references.\<close>

definition elements_of :: "calc \<Rightarrow> nat list \<Rightarrow> element list" where
  "elements_of st is = map (\<lambda>i. dom st ! i) (filter (\<lambda>i. i < length (dom st)) is)"

subsection \<open>GroupManager.updateGroupValue and the event bus\<close>

definition groupValue :: "calc \<Rightarrow> group \<Rightarrow> jsnum" where
  "groupValue st grp =
     (if isRadioGroup grp then
        (case find checked (elements_of st (g_elements grp)) of
           Some checkedRadio \<Rightarrow> getElementValue checkedRadio
         | None \<Rightarrow> Fin 0)
      else
        foldl (\<lambda>sum e.
                 if is_toggle (getElementType e)
                 then (if checked e then js_add sum (getElementValue e) else sum)
                 else js_add sum (getElementValue e))
          (Fin 0) (elements_of st (g_elements grp)))"

text \<open>The writes of \<open>updateGroupValue\<close>, before it emits.\<close>

definition store_group :: "string \<Rightarrow> group \<Rightarrow> calc \<Rightarrow> calc" where
  "store_group groupName grp st =
     (let v = groupValue st grp in
      st\<lparr>groups := AList.update groupName (grp\<lparr>g_value := v\<rparr>) (groups st),
         inputValues := AList.update groupName (VNum v) (inputValues st),
         emitted := emitted st @ [(groupName, VNum v)]\<rparr>)"

text \<open>
  \<open>notify\<close> calls the subscribed group handlers for a changed cell, in order;
  \<open>updateGroupValue\<close> recomputes a group, stores the aggregate and emits in turn. The
  handlers call each other as deep as group names occur as member cells, so the natural
  number bounds the depth of the calls: \<open>None\<close> is the exhausted call stack. On a page
  without output getters the group handlers are all the subscribers of \<open>value:changed\<close>
  that the library registers.
\<close>

fun notify :: "nat \<Rightarrow> (string \<times> string) list \<Rightarrow> string \<Rightarrow> calc \<Rightarrow> calc option"
  and updateGroupValue :: "nat \<Rightarrow> string \<Rightarrow> calc \<Rightarrow> calc option"
where
  "notify n [] changed st = Some st"
| "notify n (sub # subs) changed st =
     (case (if fst sub = changed then updateGroupValue n (snd sub) st else Some st) of
        None \<Rightarrow> None
      | Some st' \<Rightarrow> notify n subs changed st')"
| "updateGroupValue 0 groupName st = None"
| "updateGroupValue (Suc n) groupName st =
     (case map_of (groups st) groupName of
        None \<Rightarrow> Some st
      | Some grp \<Rightarrow> notify n (subscriptions st) groupName (store_group groupName grp st))"

definition emit_changed :: "nat \<Rightarrow> string \<Rightarrow> jsval \<Rightarrow> calc \<Rightarrow> calc option" where
  "emit_changed n cellId v st =
     notify n (subscriptions st) cellId (st\<lparr>emitted := emitted st @ [(cellId, v)]\<rparr>)"

subsection \<open>The handlers that attachListener puts on elements\<close>

fun fold_option :: "('a \<Rightarrow> 's \<Rightarrow> 's option) \<Rightarrow> 'a list \<Rightarrow> 's \<Rightarrow> 's option" where
  "fold_option f [] s = Some s"
| "fold_option f (x # xs) s = (case f x s of None \<Rightarrow> None | Some s' \<Rightarrow> fold_option f xs s')"

text \<open>
  \<open>handleRadioChange\<close>: every other radio input of the container with the same name
  attribute gets 0 in the store. The selector \<open>input[type="radio"]\<close> matches the type
  keyword in any case.
\<close>

definition handleRadioChange :: "nat \<Rightarrow> calc \<Rightarrow> calc" where
  "handleRadioChange i st =
     (let element = dom st ! i in
      if el_name element = [] then st
      else foldl (\<lambda>s j.
                    let radio = dom s ! j in
                    if tagName radio = ''input'' \<and>
                       map_option lower (getAttribute radio ''type'') = Some ''radio'' \<and>
                       getAttribute radio ''name'' = Some (el_name element) \<and> j \<noteq> i
                    then (case cell_of (allowLegacyAttributes s) radio of
                            Some radioCellId \<Rightarrow>
                              s\<lparr>inputValues := AList.update radioCellId (VNum (Fin 0)) (inputValues s)\<rparr>
                          | None \<Rightarrow> s)
                    else s)
             st [0..<length (dom st)])"

text \<open>The handler of one element, as \<open>attachListener\<close> builds it.\<close>

definition run_listener :: "nat \<Rightarrow> listener \<Rightarrow> calc \<Rightarrow> calc option" where
  "run_listener n l st =
     (let element = dom st ! l_element l;
          st1 = (if l_elementType l = ''radio'' \<and> checked element \<and> el_name element \<noteq> []
                 then handleRadioChange (l_element l) st else st);
          newValue = getElementValue (dom st1 ! l_element l);
          st2 = st1\<lparr>inputValues := AList.update (l_cellId l) (VNum newValue) (inputValues st1)\<rparr>
      in (case emit_changed n (l_cellId l) (VNum newValue) st2 of
            None \<Rightarrow> None
          | Some st3 \<Rightarrow> Some (if autoCalculate st3 then st3\<lparr>pending := True\<rparr> else st3)))"

text \<open>
  A \<open>change\<close> event on an element runs the handlers put on it for that event: those of
  selects, radios and checkboxes. The handler of any other input waits for \<open>input\<close>.
  (The only other \<open>change\<close> handlers of the library are those of bidirectional output
  getters.)
\<close>

definition listens_to_change :: "listener \<Rightarrow> bool" where
  "listens_to_change l = (l_elementType l = ''select'' \<or> is_toggle (l_elementType l))"

definition dispatch_change :: "nat \<Rightarrow> nat \<Rightarrow> calc \<Rightarrow> calc option" where
  "dispatch_change n i st =
     fold_option (run_listener n)
       (filter (\<lambda>l. l_element l = i \<and> listens_to_change l) (listeners st)) st"

subsection \<open>InputManager.setValue\<close>

text \<open>
  Writing the property \<open>checked\<close>. The page keeps at most one radio button of a group
  checked: checking one unchecks the other radio buttons of the same name (the container
  is taken to lie within one form).
\<close>

definition radio_button :: "element \<Rightarrow> bool" where
  "radio_button e = (tagName e = ''input'' \<and> el_type e = ''radio'')"

definition set_checked :: "nat \<Rightarrow> bool \<Rightarrow> element list \<Rightarrow> element list" where
  "set_checked i b page =
     (let element = page ! i in
      if b \<and> radio_button element \<and> el_name element \<noteq> [] then
        map (\<lambda>j. if j = i then element\<lparr>checked := True\<rparr>
                  else if radio_button (page ! j) \<and> el_name (page ! j) = el_name element
                  then (page ! j)\<lparr>checked := False\<rparr>
                  else page ! j)
          [0..<length page]
      else page[i := element\<lparr>checked := b\<rparr>])"

text \<open>
  The update of the cell's element, by its type. An element that is a select by its
  attribute \<open>data-alphacalc-element\<close> only has no property \<open>options\<close>, and
  \<open>Array.from\<close> throws a TypeError on it.
\<close>

definition lacks_options :: "element \<Rightarrow> bool" where
  "lacks_options e =
     (getElementType e = ''select'' \<and> tagName e \<noteq> ''select'' \<and> tagName e \<noteq> ''datalist'')"

definition update_page :: "jsval \<Rightarrow> nat \<Rightarrow> element list \<Rightarrow> element list" where
  "update_page v i page =
     (let element = page ! i; elementType = getElementType element in
      if elementType = ''select'' then
        (case find (\<lambda>opt. num_strict_eq (parseNumeric (VStr opt)) v) (options element) of
           Some opt \<Rightarrow> page[i := element\<lparr>el_value := VStr opt\<rparr>]
         | None \<Rightarrow> page)
      else if is_toggle elementType then
        (let elementValue = parseNumeric (case getAttribute element ''data-alphacalc-value'' of
                                            Some a \<Rightarrow> VStr a | None \<Rightarrow> el_value element)
         in set_checked i (js_lt (js_abs (js_sub elementValue (to_number v))) (to_double (1 / 1000))) page)
      else page[i := element\<lparr>el_value := dom_string v\<rparr>])"

text \<open>
  \<open>setValue\<close> is \<open>None\<close> when the call throws: the TypeError of a missing options
  list, after the store is written and before anything else, or the exhausted call stack.
\<close>

definition setValue :: "nat \<Rightarrow> string \<Rightarrow> jsval \<Rightarrow> calc \<Rightarrow> calc option" where
  "setValue n cellId v st =
     (let st1 = st\<lparr>inputValues := AList.update cellId v (inputValues st)\<rparr> in
      case map_of (inputElements st1) cellId of
        None \<Rightarrow> emit_changed n cellId v st1
      | Some i \<Rightarrow>
          if length (dom st1) \<le> i then emit_changed n cellId v st1
          else if lacks_options (dom st1 ! i) then None
          else (case dispatch_change n i (st1\<lparr>dom := update_page v i (dom st1)\<rparr>) of
                  None \<Rightarrow> None
                | Some st2 \<Rightarrow> emit_changed n cellId v st2))"

subsection \<open>AlphaCalc: calculate, setValue, getValue, getAllValues\<close>

definition mathPattern :: "string \<Rightarrow> bool" where
  "mathPattern s = (\<exists>c \<in> set s. c \<in> set ''+-*/()%'')"

text \<open>The formula of a formula input, or \<open>None\<close> where \<open>calculate\<close> leaves the input alone.\<close>

definition formula_of :: "element \<Rightarrow> string option" where
  "formula_of input =
     (if hasAttribute input ''data-alphacalc-formula'' then getAttribute input ''data-alphacalc-formula''
      else if hasAttribute input ''data-alphacalc-output'' \<or> hasAttribute input ''data-alphacalc-from'' then
        (case getAttribute input
                (if hasAttribute input ''data-alphacalc-output'' then ''data-alphacalc-output''
                 else ''data-alphacalc-from'') of
           None \<Rightarrow> None
         | Some attrValue \<Rightarrow>
             if attrValue = [] then None
             else if starts_with ''='' attrValue then Some (drop 1 attrValue)
             else if mathPattern attrValue then Some attrValue
             else None)
      else None)"

text \<open>
  The write of a cell throws the TypeError of a missing options list.
\<close>

definition write_throws :: "calc \<Rightarrow> string \<Rightarrow> bool" where
  "write_throws st cellId =
     (case map_of (inputElements st) cellId of
        None \<Rightarrow> False
      | Some i \<Rightarrow> i < length (dom st) \<and> lacks_options (dom st ! i))"

text \<open>
  One formula input of a pass. The formula is evaluated by the engine's next call, and
  the result is written with \<open>setValue\<close> inside a \<open>try\<close>: when the write throws the
  TypeError, the store holds the result and the pass goes on.
\<close>

definition formula_step :: "engine \<Rightarrow> nat \<Rightarrow> nat \<Rightarrow> calc \<Rightarrow> calc option" where
  "formula_step run n i st =
     (if length (dom st) \<le> i then Some st
      else (case cell_of (allowLegacyAttributes st) (dom st ! i) of
              None \<Rightarrow> Some st
            | Some cellId \<Rightarrow>
                (case formula_of (dom st ! i) of
                   None \<Rightarrow> Some st
                 | Some formula \<Rightarrow>
                     if formula = [] then Some st
                     else (let computedValue =
                                 VNum (evaluate (run (ticks st)) (decimal_input st) formula (inputValues st));
                               st1 = st\<lparr>ticks := Suc (ticks st)\<rparr>
                           in if write_throws st1 cellId
                              then Some (st1\<lparr>inputValues :=
                                           AList.update cellId computedValue (inputValues st1)\<rparr>)
                              else setValue n cellId computedValue st1))))"

text \<open>
  A custom calculation gets the store and may change it; an error it throws is caught,
  so what it leaves behind is a store in any case. A pass is \<open>None\<close> when the handlers of
  a write exhaust the call stack: what such a write leaves behind is not modelled.
\<close>

definition calculate :: "engine \<Rightarrow> nat \<Rightarrow> calc \<Rightarrow> calc option" where
  "calculate run n st =
     (case fold_option (formula_step run n) (formulaInputs st) st of
        None \<Rightarrow> None
      | Some st' \<Rightarrow> Some (foldl (\<lambda>s fn. s\<lparr>inputValues := fn (inputValues s)\<rparr>) st' (calculations st)))"

text \<open>The public \<open>setValue\<close> hands its arguments to the input manager as they are.\<close>

definition api_setValue :: "nat \<Rightarrow> string \<Rightarrow> jsval \<Rightarrow> calc \<Rightarrow> calc option" where
  "api_setValue n cellId v st = setValue n cellId v st"

definition getValue :: "calc \<Rightarrow> string \<Rightarrow> jsval" where
  "getValue st cellId =
     (case map_of (inputValues st) cellId of
        None \<Rightarrow> VNum (Fin 0)
      | Some v \<Rightarrow> if truthy v then v else VNum (Fin 0))"

definition getAllValues :: "calc \<Rightarrow> (string \<times> jsval) list" where
  "getAllValues st = inputValues st"

subsection \<open>Registration\<close>

text \<open>\<open>InputManager.registerInput\<close> for the element at a position.\<close>

definition registerInput :: "nat \<Rightarrow> calc \<Rightarrow> calc" where
  "registerInput i st =
     (let input = dom st ! i in
      case cell_of (allowLegacyAttributes st) input of
        None \<Rightarrow> st
      | Some cellId \<Rightarrow>
          (let elementType = getElementType input;
               v = getElementValue input;
               input' = (if elementType = ''input'' \<and> hasAttribute input ''data-alphacalc-value'' \<and>
                            (el_type input = ''text'' \<or> el_type input = ''number'')
                         then input\<lparr>el_value := VNum v, initialized := True\<rparr> else input);
               st1 = st\<lparr>inputElements := AList.update cellId i (inputElements st),
                        inputValues := AList.update cellId (VNum v) (inputValues st),
                        dom := (dom st)[i := input']\<rparr>
           in if hasAttribute input ''data-alphacalc-formula''
              then st1\<lparr>formulaInputs := formulaInputs st1 @ [i]\<rparr>
              else st1\<lparr>listeners := listeners st1 @
                        [\<lparr>l_element = i, l_elementType = elementType, l_cellId = cellId\<rparr>]\<rparr>))"

text \<open>
  \<open>InputManager.init\<close>: the elements that carry the input attribute, but no submit (the
  selector matches the type keyword in any case).
\<close>

definition init_inputs :: "calc \<Rightarrow> calc" where
  "init_inputs st =
     foldl (\<lambda>s i. registerInput i s) st
       (filter (\<lambda>i. hasAttribute (dom st ! i) ''data-alphacalc-input'' \<and>
                     map_option lower (getAttribute (dom st ! i) ''type'') \<noteq> Some ''submit'')
          [0..<length (dom st)])"

text \<open>\<open>GroupManager.createGroup\<close> and \<open>GroupManager.init\<close>.\<close>

definition createGroup :: "nat \<Rightarrow> string \<Rightarrow> nat list \<Rightarrow> calc \<Rightarrow> calc option" where
  "createGroup n groupName els st =
     (let es = map (\<lambda>i. dom st ! i) els;
          allRadios = list_all (\<lambda>e. getElementType e = ''radio'') es;
          sameName = (allRadios \<and> list_all (\<lambda>e. el_name e = el_name (hd es)) es);
          st1 = st\<lparr>groups := AList.update groupName
                     \<lparr>g_elements = els, isRadioGroup = (allRadios \<and> sameName), g_value = Fin 0\<rparr>
                     (groups st)\<rparr>
      in (case updateGroupValue n groupName st1 of
            None \<Rightarrow> None
          | Some st2 \<Rightarrow>
              Some (st2\<lparr>subscriptions := subscriptions st2 @
                      map (\<lambda>e. ((case getCellId (allowLegacyAttributes st2) e of
                                    Some c \<Rightarrow> c | None \<Rightarrow> []), groupName)) es\<rparr>)))"

definition group_members :: "calc \<Rightarrow> string \<Rightarrow> nat list" where
  "group_members st groupName =
     filter (\<lambda>i. getAttribute (dom st ! i) ''data-alphacalc-group'' = Some groupName \<and>
                   cell_of (allowLegacyAttributes st) (dom st ! i) \<noteq> None)
       [0..<length (dom st)]"

definition group_names :: "calc \<Rightarrow> string list" where
  "group_names st =
     rev (remdups (rev (map (\<lambda>i. case getAttribute (dom st ! i) ''data-alphacalc-group'' of
                                    Some g \<Rightarrow> g | None \<Rightarrow> [])
                         (filter (\<lambda>i. (case getAttribute (dom st ! i) ''data-alphacalc-group'' of
                                         Some g \<Rightarrow> g \<noteq> [] | None \<Rightarrow> False) \<and>
                                       cell_of (allowLegacyAttributes st) (dom st ! i) \<noteq> None)
                            [0..<length (dom st)]))))"

definition init_groups :: "nat \<Rightarrow> calc \<Rightarrow> calc option" where
  "init_groups n st =
     fold_option (\<lambda>g s. createGroup n g (group_members st g) s) (group_names st) st"

text \<open>
  A calculator on a container with the default configuration, before \<open>initialize\<close>, and
  \<open>initialize\<close>: the input manager, the group manager and the first pass. On a page
  without output getters the output manager finds no element, and the managers of setters,
  submit buttons and loading indicators write no value when they start.
\<close>

definition new_calc :: "element list \<Rightarrow> calc" where
  "new_calc container =
     \<lparr>decimal_input = Fin 4, autoCalculate = True, allowLegacyAttributes = True,
      dom = container, inputValues = [], inputElements = [], formulaInputs = [],
      listeners = [], groups = [], subscriptions = [], calculations = [], emitted = [],
      pending = False, ticks = 0\<rparr>"

definition initialize :: "engine \<Rightarrow> nat \<Rightarrow> calc \<Rightarrow> calc option" where
  "initialize run n st =
     (case init_groups n (init_inputs st) of
        None \<Rightarrow> None
      | Some st' \<Rightarrow> calculate run n st')"

text \<open>
  An input element as a page declares it: a tag, attributes and a value. The property
  \<open>type\<close> is the keyword of the type attribute in lower case when it is one of the
  input types, and \<open>text\<close> otherwise.
\<close>

definition input_types :: "string list" where
  "input_types =
     [''hidden'', ''text'', ''search'', ''tel'', ''url'', ''email'', ''password'', ''date'',
      ''month'', ''week'', ''time'', ''datetime-local'', ''number'', ''range'', ''color'',
      ''checkbox'', ''radio'', ''file'', ''submit'', ''image'', ''reset'', ''button'']"

definition html_input :: "(string \<times> string) list \<Rightarrow> string \<Rightarrow> bool \<Rightarrow> element" where
  "html_input attrs v c =
     \<lparr>tagName = ''input'', attributes = attrs, el_value = VStr v, checked = c,
      el_type = (case map_of attrs ''type'' of
                   Some t \<Rightarrow> if lower t \<in> set input_types then lower t else ''text''
                 | None \<Rightarrow> ''text''),
      initialized = False, options = []\<rparr>"

section \<open>Notions used by the properties\<close>



text \<open>No handler for \<open>change\<close> sits on the element of a cell.\<close>

definition no_change_listener :: "calc \<Rightarrow> string \<Rightarrow> bool" where
  "no_change_listener st cellId =
     (\<forall>l \<in> set (listeners st).
        listens_to_change l \<longrightarrow> map_of (inputElements st) cellId \<noteq> Some (l_element l))"

text \<open>
  A page without output getters: no element carries \<open>data-alphacalc-output\<close>,
  \<open>data-alphacalc-from\<close> or \<open>data-alphacalc-display\<close>, the attributes by which
  \<open>OutputManager.init\<close> finds the elements it subscribes to \<open>value:changed\<close>.
\<close>

definition getter_free :: "calc \<Rightarrow> bool" where
  "getter_free st =
     (\<forall>e \<in> set (dom st). \<not> hasAttribute e ''data-alphacalc-output'' \<and>
                            \<not> hasAttribute e ''data-alphacalc-from'' \<and>
                            \<not> hasAttribute e ''data-alphacalc-display'')"

text \<open>
  The cell and the formula of each formula input that a pass evaluates, in registration
  order, and the pass as a function of the store and the number of the engine's next
  call.
\<close>

definition planned :: "calc \<Rightarrow> nat \<Rightarrow> (string \<times> string) option" where
  "planned st i =
     (if length (dom st) \<le> i then None
      else (case cell_of (allowLegacyAttributes st) (dom st ! i) of
              None \<Rightarrow> None
            | Some cellId \<Rightarrow>
                (case formula_of (dom st ! i) of
                   None \<Rightarrow> None
                 | Some formula \<Rightarrow> if formula = [] then None else Some (cellId, formula))))"

definition plan :: "calc \<Rightarrow> (string \<times> string) list" where
  "plan st = List.map_filter (planned st) (formulaInputs st)"


text \<open>
  Every formula of a plan depends on the values of earlier cells and on nothing else: its
  result is the same at any two calls of the engine, in any two stores with the same keys
  that differ at most in its own cell and the cells of the formulas after it.
\<close>

fun forward_only :: "engine \<Rightarrow> jsnum \<Rightarrow> (string \<times> string) list \<Rightarrow> bool" where
  "forward_only run d [] = True"
| "forward_only run d (cf # rest) =
     ((\<forall>t t' s s'. map fst s = map fst s' \<and>
               (\<forall>k. k \<notin> insert (fst cf) (fst ` set rest) \<longrightarrow> map_of s k = map_of s' k) \<longrightarrow>
               evaluate (run t) d (snd cf) s = evaluate (run t') d (snd cf) s') \<and>
      forward_only run d rest)"

text \<open>What the group handlers leave as it is: everything but the groups' values, the
  store at group names, and the log, which they extend.\<close>

definition frame :: "calc \<Rightarrow> calc \<Rightarrow> bool" where
  "frame st st' =
     (dom st' = dom st \<and> subscriptions st' = subscriptions st \<and> listeners st' = listeners st \<and>
      inputElements st' = inputElements st \<and> formulaInputs st' = formulaInputs st \<and>
      calculations st' = calculations st \<and> decimal_input st' = decimal_input st \<and>
      allowLegacyAttributes st' = allowLegacyAttributes st \<and> autoCalculate st' = autoCalculate st \<and>
      fst ` set (groups st') = fst ` set (groups st) \<and>
      (\<forall>k. k \<notin> fst ` set (groups st) \<longrightarrow> map_of (inputValues st') k = map_of (inputValues st) k) \<and>
      (\<exists>xs. emitted st' = emitted st @ xs))"


text \<open>The values that are 0 to \<open>||\<close>.\<close>

definition falsy_values :: "jsval set" where
  "falsy_values = {VNum NaN, VUndefined, VNull, VBool False, VStr [], VNum (Fin 0)}"

text \<open>What \<open>getValue\<close> returns for a cell after an operation that came back.\<close>

definition getValue_after :: "calc option \<Rightarrow> string \<Rightarrow> jsval option" where
  "getValue_after r c = map_option (\<lambda>st. getValue st c) r"


text \<open>
  A cell that a pass can write without any handler running: no group handler waits for
  it, no \<open>change\<close> handler sits on its element, and it is in the store already.
\<close>

definition quiet_cell :: "calc \<Rightarrow> string \<Rightarrow> bool" where
  "quiet_cell st c =
     (c \<notin> fst ` set (subscriptions st) \<and> no_change_listener st c \<and>
      c \<in> fst ` set (inputValues st))"

section \<open>Example pages\<close>

text \<open>A number input with bounds, and its calculator after \<open>initialize\<close>.\<close>

definition bounded_page :: "element list" where
  "bounded_page =
     [html_input [(''data-alphacalc-input'', ''x''), (''type'', ''number''),
                  (''data-alphacalc-min'', ''0''), (''data-alphacalc-max'', ''100'')] ''5'' False]"

definition bounded_calc :: calc where
  "bounded_calc =
     \<lparr>decimal_input = Fin 4, autoCalculate = True, allowLegacyAttributes = True,
      dom = bounded_page, inputValues = [(''x'', VNum (Fin 5))],
      inputElements = [(''x'', 0)], formulaInputs = [],
      listeners = [\<lparr>l_element = 0, l_elementType = ''input'', l_cellId = ''x''\<rparr>],
      groups = [], subscriptions = [], calculations = [], emitted = [], pending = False, ticks = 0\<rparr>"

text \<open>Two checkboxes worth 5 (checked) and 10 (not checked) in the group \<open>g\<close>.\<close>

definition additive_page :: "element list" where
  "additive_page =
     [html_input [(''data-alphacalc-input'', ''a''), (''type'', ''checkbox''),
                  (''data-alphacalc-group'', ''g''), (''data-alphacalc-value'', ''5'')] ''on'' True,
      html_input [(''data-alphacalc-input'', ''b''), (''type'', ''checkbox''),
                  (''data-alphacalc-group'', ''g''), (''data-alphacalc-value'', ''10'')] ''on'' False]"

definition additive_calc :: calc where
  "additive_calc =
     \<lparr>decimal_input = Fin 4, autoCalculate = True, allowLegacyAttributes = True,
      dom = additive_page,
      inputValues = [(''a'', VNum (Fin 5)), (''b'', VNum (Fin 0)), (''g'', VNum (Fin 5))],
      inputElements = [(''a'', 0), (''b'', 1)], formulaInputs = [],
      listeners = [\<lparr>l_element = 0, l_elementType = ''checkbox'', l_cellId = ''a''\<rparr>,
                   \<lparr>l_element = 1, l_elementType = ''checkbox'', l_cellId = ''b''\<rparr>],
      groups = [(''g'', \<lparr>g_elements = [0, 1], isRadioGroup = False, g_value = Fin 5\<rparr>)],
      subscriptions = [(''a'', ''g''), (''b'', ''g'')], calculations = [],
      emitted = [(''g'', VNum (Fin 5))], pending = False, ticks = 0\<rparr>"

text \<open>The same calculator after the inputs are registered, before the groups are.\<close>

definition additive_inputs :: calc where
  "additive_inputs = additive_calc\<lparr>inputValues := [(''a'', VNum (Fin 5)), (''b'', VNum (Fin 0))],
     groups := [], subscriptions := [], emitted := []\<rparr>"


text \<open>
  An input \<open>x\<close> and the formula inputs \<open>F1 = x+1\<close> and \<open>F2 = F1*2\<close>, registered in
  this order; the calculator with any values in the three cells.
\<close>

definition order_page :: "element list" where
  "order_page =
     [html_input [(''data-alphacalc-input'', ''x''), (''type'', ''number'')] ''3'' False,
      html_input [(''data-alphacalc-input'', ''F1''), (''data-alphacalc-formula'', ''x+1'')] [] False,
      html_input [(''data-alphacalc-input'', ''F2''), (''data-alphacalc-formula'', ''F1*2'')] [] False]"

definition order_calc :: "jsval \<Rightarrow> jsval \<Rightarrow> jsval \<Rightarrow> calc" where
  "order_calc x f1 f2 =
     \<lparr>decimal_input = Fin 4, autoCalculate = True, allowLegacyAttributes = True,
      dom = order_page, inputValues = [(''x'', x), (''F1'', f1), (''F2'', f2)],
      inputElements = [(''x'', 0), (''F1'', 1), (''F2'', 2)], formulaInputs = [1, 2],
      listeners = [\<lparr>l_element = 0, l_elementType = ''input'', l_cellId = ''x''\<rparr>],
      groups = [], subscriptions = [], calculations = [], emitted = [], pending = False, ticks = 0\<rparr>"

text \<open>A formula input that refers to its own cell, \<open>F = F+1\<close>.\<close>

definition cycle_page :: "element list" where
  "cycle_page =
     [html_input [(''data-alphacalc-input'', ''F''), (''data-alphacalc-formula'', ''F+1'')] [] False]"

definition cycle_calc :: "jsval \<Rightarrow> calc" where
  "cycle_calc f =
     \<lparr>decimal_input = Fin 4, autoCalculate = True, allowLegacyAttributes = True,
      dom = cycle_page, inputValues = [(''F'', f)],
      inputElements = [(''F'', 0)], formulaInputs = [0],
      listeners = [], groups = [], subscriptions = [], calculations = [], emitted = [],
      pending = False, ticks = 0\<rparr>"

text \<open>
  A formula input \<open>T\<close> whose formula reads no cell, \<open>Date.now()\<close>, and an engine that
  answers this formula with the number of the call, as a clock would with the time.
\<close>

definition stamp_page :: "element list" where
  "stamp_page =
     [html_input [(''data-alphacalc-input'', ''T''), (''data-alphacalc-formula'', ''Date.now()'')] [] False]"

definition stamp_calc :: calc where
  "stamp_calc =
     \<lparr>decimal_input = Fin 4, autoCalculate = True, allowLegacyAttributes = True,
      dom = stamp_page, inputValues = [(''T'', VNum (Fin 0))],
      inputElements = [(''T'', 0)], formulaInputs = [0],
      listeners = [], groups = [], subscriptions = [], calculations = [], emitted = [],
      pending = False, ticks = 0\<rparr>"

definition stamp_engine :: engine where
  "stamp_engine t body ctx = (if body = ''Date.now()'' then Returns (VNum (Fin (real t))) else Throws)"

text \<open>
  An input \<open>x\<close>, the formula input \<open>G = g*2\<close> and, registered after it, the formula
  input \<open>F = x+1\<close>, which is the one member of the group \<open>g\<close>; the calculator after
  the inputs and the group are registered, before the first pass.
\<close>

definition cascade_page :: "element list" where
  "cascade_page =
     [html_input [(''data-alphacalc-input'', ''x''), (''type'', ''number'')] ''3'' False,
      html_input [(''data-alphacalc-input'', ''G''), (''data-alphacalc-formula'', ''g*2'')] [] False,
      html_input [(''data-alphacalc-input'', ''F''), (''data-alphacalc-formula'', ''x+1''),
                  (''data-alphacalc-group'', ''g'')] [] False]"

definition cascade_calc :: calc where
  "cascade_calc =
     \<lparr>decimal_input = Fin 4, autoCalculate = True, allowLegacyAttributes = True,
      dom = cascade_page,
      inputValues = [(''x'', VNum (Fin 3)), (''G'', VNum (Fin 0)), (''F'', VNum (Fin 0)),
                     (''g'', VNum (Fin 0))],
      inputElements = [(''x'', 0), (''G'', 1), (''F'', 2)], formulaInputs = [1, 2],
      listeners = [\<lparr>l_element = 0, l_elementType = ''input'', l_cellId = ''x''\<rparr>],
      groups = [(''g'', \<lparr>g_elements = [2], isRadioGroup = False, g_value = Fin 0\<rparr>)],
      subscriptions = [(''F'', ''g'')], calculations = [],
      emitted = [(''g'', VNum (Fin 0))], pending = False, ticks = 0\<rparr>"

text \<open>
  A calculator without elements whose one custom calculation adds 1 to the cell \<open>n\<close>,
  as \<open>(values) => values.set('n', values.get('n') + 1)\<close>.
\<close>

definition counter_hook :: "bindings \<Rightarrow> bindings" where
  "counter_hook s =
     AList.update ''n''
       (VNum (js_add (to_number (case map_of s ''n'' of Some v \<Rightarrow> v | None \<Rightarrow> VUndefined)) (Fin 1))) s"

definition counter_calc :: calc where
  "counter_calc =
     \<lparr>decimal_input = Fin 4, autoCalculate = True, allowLegacyAttributes = True,
      dom = [], inputValues = [(''n'', VNum (Fin 0))],
      inputElements = [], formulaInputs = [],
      listeners = [], groups = [], subscriptions = [], calculations = [counter_hook], emitted = [],
      pending = False, ticks = 0\<rparr>"

text \<open>
  An object that converts to the number 1 and has a \<open>toFixed\<close> of its own that returns
  the text \<open>abc\<close>, as \<open>{valueOf: () => 1, toFixed: () => 'abc'}\<close>, and a host on a page
  that has defined the global \<open>k\<close> as this object.
\<close>

definition odd_object :: jsobject where
  "odd_object = \<lparr>as_number = Some (Fin 1), call_toFixed = CallReturns ''abc''\<rparr>"

definition odd_host :: host where
  "odd_host body ctx = (if body = ''k'' then ReturnsObject odd_object else Throws)"

section \<open>Properties of the numbers\<close>

text \<open>
  The exponent brackets the number between two powers of 2, a number with a significand
  of 53 bits and an exponent in range is rounded to itself, and a number from
  \<open>2\<^sup>1\<^sup>0\<^sup>2\<^sup>4\<close> on is rounded to an infinity.
\<close>

lemma floor_log2_bounds: "0 < n \<Longrightarrow> 2 ^ floor_log2 n \<le> n \<and> n < 2 * 2 ^ floor_log2 n"
proof (induction n rule: floor_log2.induct)
  case (1 n)
  show ?case
  proof (cases "n < 2")
    case True
    with 1(2) show ?thesis by (simp add: floor_log2.simps)
  next
    case False
    then have "0 < n div 2" by simp
    from 1(1)[OF False this]
    have a: "2 ^ floor_log2 (n div 2) \<le> n div 2" and b: "n div 2 < 2 * 2 ^ floor_log2 (n div 2)"
      by simp_all
    have e: "floor_log2 n = Suc (floor_log2 (n div 2))"
      using False by (subst floor_log2.simps) simp
    from a b show ?thesis unfolding e by simp linarith
  qed
qed

lemma pow2_less_cancel: "(2::real) powi a < 2 powi b \<Longrightarrow> a < b"
  using power_int_increasing[of b a "2::real"] by (cases "a < b") auto

lemma exponent_bounds:
  assumes "x \<noteq> 0"
  shows "2 powi exponent x \<le> \<bar>x\<bar>" and "\<bar>x\<bar> < 2 powi (exponent x + 1)"
proof -
  have "2 powi exponent x \<le> \<bar>x\<bar> \<and> \<bar>x\<bar> < 2 powi (exponent x + 1)"
  proof (cases "1 \<le> \<bar>x\<bar>")
    case True
    define n where "n = \<lfloor>\<bar>x\<bar>\<rfloor>"
    have n: "0 < n" using True by (simp add: n_def)
    have e: "exponent x = int (floor_log2 n)" using True by (simp add: exponent_def n_def)
    from floor_log2_bounds[OF n]
    have a: "2 ^ floor_log2 n \<le> n" and b: "n < 2 * 2 ^ floor_log2 n" by simp_all
    have "(2::real) ^ floor_log2 n \<le> of_int n"
      using a by (metis of_int_le_iff of_int_numeral of_int_power)
    also have "\<dots> \<le> \<bar>x\<bar>" by (simp add: n_def)
    finally have lo: "(2::real) ^ floor_log2 n \<le> \<bar>x\<bar>" .
    have "n + 1 \<le> 2 * 2 ^ floor_log2 n" using b by simp
    then have "of_int (n + 1) \<le> (of_int (2 * 2 ^ floor_log2 n) :: real)"
      by (simp only: of_int_le_iff)
    moreover have "\<bar>x\<bar> < of_int (n + 1)" unfolding n_def by linarith
    ultimately have hi: "\<bar>x\<bar> < 2 * 2 ^ floor_log2 n" by simp
    show ?thesis unfolding e using lo hi by (simp add: power_int_add)
  next
    case False
    define y where "y = 1 / \<bar>x\<bar>"
    define m where "m = \<lceil>y\<rceil> - 1"
    have x: "0 < \<bar>x\<bar>" "\<bar>x\<bar> < 1" using assms False by simp_all
    then have y: "1 < y" by (simp add: y_def)
    then have m: "0 < m" unfolding m_def by linarith
    have e: "exponent x = - int (Suc (floor_log2 m))"
      using False by (simp add: exponent_def m_def y_def)
    from floor_log2_bounds[OF m]
    have a: "2 ^ floor_log2 m \<le> m" and b: "m < 2 * 2 ^ floor_log2 m" by simp_all
    have "(2::real) ^ floor_log2 m \<le> of_int m"
      using a by (metis of_int_le_iff of_int_numeral of_int_power)
    also have "\<dots> < y" unfolding m_def by linarith
    finally have lo: "(2::real) ^ floor_log2 m < y" .
    have "m + 1 \<le> 2 * 2 ^ floor_log2 m" using b by simp
    then have "of_int (m + 1) \<le> (of_int (2 * 2 ^ floor_log2 m) :: real)"
      by (simp only: of_int_le_iff)
    moreover have "y \<le> of_int (m + 1)" unfolding m_def by simp
    ultimately have hi: "y \<le> 2 * 2 ^ floor_log2 m" by simp
    have xy: "\<bar>x\<bar> = 1 / y" using x by (simp add: y_def)
    have p: "(0::real) < 2 ^ floor_log2 m" by simp
    have 1: "1 / (2 * 2 ^ floor_log2 m) \<le> \<bar>x\<bar>"
      unfolding xy using hi y by (intro divide_left_mono) simp_all
    have 2: "\<bar>x\<bar> < 1 / 2 ^ floor_log2 m"
    proof -
      have "0 < y * 2 ^ floor_log2 m" using y by simp
      with lo show ?thesis unfolding xy by (intro divide_strict_left_mono) simp_all
    qed
    have e1: "exponent x + 1 = - int (floor_log2 m)" using e by simp
    have p1: "(2::real) powi (- int (Suc (floor_log2 m))) = 1 / (2 * 2 ^ floor_log2 m)"
      by (simp only: power_int_minus_divide power_int_of_nat power_Suc)
    have p2: "(2::real) powi (- int (floor_log2 m)) = 1 / 2 ^ floor_log2 m"
      by (simp only: power_int_minus_divide power_int_of_nat)
    show ?thesis unfolding e1 unfolding e p1 p2 using 1 2 by simp
  qed
  then show "2 powi exponent x \<le> \<bar>x\<bar>" and "\<bar>x\<bar> < 2 powi (exponent x + 1)" by simp_all
qed

lemma round_half_even_of_int: "round_half_even (of_int n) = n"
  by (simp add: round_half_even_def)

lemma round_half_even_ge: "of_int n \<le> t \<Longrightarrow> n \<le> round_half_even t"
proof -
  assume "of_int n \<le> t"
  then have "n \<le> \<lfloor>t\<rfloor>" by (simp add: le_floor_iff)
  moreover have "\<lfloor>t\<rfloor> \<le> round_half_even t" by (simp add: round_half_even_def Let_def)
  ultimately show ?thesis by simp
qed

lemma round_half_even_le: "t \<le> of_int n \<Longrightarrow> round_half_even t \<le> n"
proof (cases "t = of_int \<lfloor>t\<rfloor>")
  case True
  assume "t \<le> of_int n"
  then have "\<lfloor>t\<rfloor> \<le> n" by (simp add: floor_le_iff)
  moreover have "round_half_even t = \<lfloor>t\<rfloor>" using True by (simp add: round_half_even_def Let_def)
  ultimately show ?thesis by simp
next
  case False
  assume le: "t \<le> of_int n"
  have "of_int \<lfloor>t\<rfloor> < t" using False of_int_floor_le[of t] by linarith
  with le have "of_int \<lfloor>t\<rfloor> < (of_int n :: real)" by simp
  then have "\<lfloor>t\<rfloor> + 1 \<le> n" by simp
  moreover have "round_half_even t \<le> \<lfloor>t\<rfloor> + 1" by (simp add: round_half_even_def Let_def)
  ultimately show ?thesis by simp
qed

text \<open>A number with a significand of 53 bits and an exponent in range is a double.\<close>

lemma to_double_exact:
  assumes "\<bar>m\<bar> < 2 ^ 53" and "- 1074 \<le> k" and "k \<le> 971"
  shows "to_double (of_int m * 2 powi k) = Fin (of_int m * 2 powi k)"
proof (cases "m = 0")
  case True
  then show ?thesis by (simp add: to_double_def)
next
  case False
  define x :: real where "x = of_int m * 2 powi k"
  have x0: "x \<noteq> 0" using False by (simp add: x_def)
  define e where "e = max (exponent x) (- 1022)"
  have ax: "\<bar>x\<bar> = of_int \<bar>m\<bar> * 2 powi k" by (simp add: x_def abs_mult)
  have "of_int \<bar>m\<bar> < (2::real) ^ 53"
    using assms(1) by (metis of_int_less_iff of_int_numeral of_int_power)
  then have "\<bar>x\<bar> < 2 ^ 53 * 2 powi k" unfolding ax by (simp add: mult_strict_right_mono)
  also have "\<dots> = 2 powi (k + 53)" by (simp add: power_int_add)
  finally have up: "\<bar>x\<bar> < 2 powi (k + 53)" .
  with exponent_bounds(1)[OF x0] have "(2::real) powi exponent x < 2 powi (k + 53)" by simp
  then have "exponent x < k + 53" by (rule pow2_less_cancel)
  then have ek: "e - 52 \<le> k" using assms(2) by (simp add: e_def)
  define j where "j = nat (k - (e - 52))"
  have kj: "k = (e - 52) + int j" using ek by (simp add: j_def)
  have q: "x / 2 powi (e - 52) = of_int (m * 2 ^ j)"
    unfolding x_def by (subst kj) (simp add: power_int_add)
  have pk: "(2::real) powi k = 2 ^ j * 2 powi (e - 52)"
    by (subst kj) (simp add: power_int_add)
  have r: "of_int (round_half_even (x / 2 powi (e - 52))) * 2 powi (e - 52) = x"
    unfolding q round_half_even_of_int unfolding x_def pk by simp
  have "\<bar>x\<bar> < 2 ^ 53 * 2 powi k" using \<open>\<bar>x\<bar> < 2 ^ 53 * 2 powi k\<close> .
  also have "\<dots> \<le> 2 ^ 53 * 2 powi 971"
  proof -
    have "(2::real) powi k \<le> 2 powi 971"
      using assms(3) by (intro power_int_increasing) simp_all
    then show ?thesis by (intro mult_left_mono) simp_all
  qed
  also have "\<dots> = 2 ^ 1024" by simp
  finally have fin: "\<bar>x\<bar> < 2 ^ 1024" .
  show ?thesis
    using x0 fin r unfolding x_def[symmetric] to_double_def e_def[symmetric] Let_def by simp
qed

lemma to_double_overflow:
  assumes "2 ^ 1024 \<le> \<bar>x\<bar>"
  shows "to_double x = signed_inf (x < 0)"
proof -
  have x0: "x \<noteq> 0" using assms by auto
  define e where "e = exponent x"
  have "(2::real) powi 1024 \<le> \<bar>x\<bar>" using assms by simp
  also have "\<dots> < 2 powi (e + 1)" unfolding e_def by (rule exponent_bounds(2)[OF x0])
  finally have "1024 < e + 1" by (rule pow2_less_cancel)
  then have e: "1024 \<le> e" by simp
  then have m: "max e (- 1022) = e" by simp
  define u :: real where "u = 2 powi (e - 52)"
  have u: "0 < u" by (simp add: u_def)
  have "2 ^ 52 * u = 2 powi e" unfolding u_def by (simp add: power_int_diff)
  also have "\<dots> \<le> \<bar>x\<bar>" unfolding e_def by (rule exponent_bounds(1)[OF x0])
  finally have low: "2 ^ 52 \<le> \<bar>x\<bar> / u" using u by (simp add: pos_le_divide_eq)
  define n where "n = round_half_even (x / u)"
  have big: "2 ^ 52 \<le> \<bar>n\<bar>"
  proof (cases "0 \<le> x")
    case True
    with low have "of_int (2 ^ 52) \<le> x / u" by simp
    from round_half_even_ge[OF this] show ?thesis unfolding n_def by simp
  next
    case False
    with low have "x / u \<le> of_int (- (2 ^ 52))" by simp
    then have "round_half_even (x / u) \<le> - (2 ^ 52)" by (rule round_half_even_le)
    then show ?thesis unfolding n_def by simp
  qed
  have "(2::real) ^ 1024 \<le> 2 powi e" using e by (metis numeral_One of_nat_numeral one_le_numeral power_int_increasing power_int_of_nat)
  also have "\<dots> = 2 ^ 52 * u" unfolding u_def by (simp add: power_int_diff)
  also have "\<dots> \<le> \<bar>of_int n\<bar> * u"
  proof -
    have "(2::real) ^ 52 \<le> \<bar>of_int n\<bar>"
      using big by (metis of_int_abs of_int_le_iff of_int_numeral of_int_power)
    then show ?thesis using u by (simp add: mult_right_mono)
  qed
  also have "\<dots> = \<bar>of_int n * u\<bar>" using u by (simp add: abs_mult)
  finally have "2 ^ 1024 \<le> \<bar>of_int n * u\<bar>" .
  then show ?thesis
    using x0 unfolding to_double_def e_def[symmetric] m u_def[symmetric] n_def[symmetric] Let_def by simp
qed

lemma to_double_int: "\<bar>m\<bar> < 2 ^ 53 \<Longrightarrow> to_double (of_int m) = Fin (of_int m)"
  using to_double_exact[of m 0] by simp

lemma to_double_numeral [simp]:
  "numeral w < (2::int) ^ 53 \<Longrightarrow> to_double (numeral w) = Fin (numeral w)"
  "numeral w < (2::int) ^ 53 \<Longrightarrow> to_double (- numeral w) = Fin (- numeral w)"
  "to_double 0 = Fin 0" "to_double 1 = Fin 1" "to_double (- 1) = Fin (- 1)"
  using to_double_int[of "numeral w"] to_double_int[of "- numeral w"] to_double_int[of 1] to_double_int[of "- 1"]
  by (simp_all add: to_double_def)


section \<open>Properties of the formula engine\<close>

lemmas lex_defs = next_token_def lex_number_def is_digit_def is_word_def is_id_start_def
  starts_with_def digits_val_def digit_val_def is_space_def

lemmas id_defs = plain_identifier_def is_id_start_def is_word_def is_digit_def reserved_words_def

lemma agrees_arith_host: "agrees arith_host"
  by (simp add: agrees_def arith_host_def)

lemma lex_a_plus_b: "lex (length ''a+b'') ''a+b'' = Some [TId ''a'', TPlus, TId ''b'']"
  by (simp add: lex_defs)

lemma parse_a_plus_b: "parse [TId ''a'', TPlus, TId ''b''] = Some (Add (Var ''a'') (Var ''b''))"
  by (simp add: parse_def eval_nat_numeral)

lemma sanitize_a_plus_b: "sanitize ''a+b'' = ''a+b''"
  by (simp add: sanitize_def is_word_def is_space_def)

lemma js_arith_a_plus_b:
  "js_arith ''a+b'' [(''a'', VNum x), (''b'', VNum y)] = Some (Returns (VNum (js_add x y)))"
  unfolding js_arith_def by (subst lex_a_plus_b) (simp add: parse_a_plus_b id_defs)

lemma evaluate_a_plus_b:
  assumes "run ''a+b'' ctx = Returns (VNum v)"
  shows "evaluate run d ''a+b'' ctx =
    (case v of
       Fin s \<Rightarrow> (case toFixed s d of Some y \<Rightarrow> to_double y | None \<Rightarrow> Fin 0)
     | _ \<Rightarrow> Fin 0)"
  using assms by (simp add: evaluate_def sanitize_a_plus_b isFinite_def split: jsnum.splits)

text \<open>
  The doubles 0.25 and 0.00005 (the double closest to it): their sum is rounded to a
  double below 0.25005.
\<close>

lemma quarter_sum:
  "to_double (1 / 4 + 7378697629483821 / 2 ^ 67) = Fin (2252250173647985 / 2 ^ 53)"
  by (simp add: to_double_def exponent_def floor_log2.simps round_half_even_def Let_def)

lemma quarter_fixed: "fixed_value (2252250173647985 / 2 ^ 53) 4 = 1 / 4"
  by (simp add: fixed_value_def)

lemma quarter_double: "to_double (1 / 4) = Fin (1 / 4)"
  using to_double_exact[of 1 "- 2"] by simp

text \<open>
  C1, as amended. On every engine that agrees with the arithmetic fragment, the formula
  \<open>a+b\<close> in a context binding \<open>a\<close> and \<open>b\<close> to finite numbers evaluates as follows. The
  sum is the exact sum rounded to the nearest double. When that is finite and \<open>toFixed\<close>
  accepts the configured precision, the result is the sum rounded to that many decimals
  (on its exact binary value, half away from zero) and read back as the nearest double.
  When the sum overflows to an infinity, or the precision is refused, the result is 0.
\<close>

theorem evaluate_sum:
  assumes "agrees run"
  shows "evaluate run d ''a+b'' [(''a'', VNum (Fin a)), (''b'', VNum (Fin b))] =
    (case to_double (a + b) of
       Fin s \<Rightarrow> (case toFixed s d of Some y \<Rightarrow> to_double y | None \<Rightarrow> Fin 0)
     | _ \<Rightarrow> Fin 0)"
proof -
  have "run ''a+b'' [(''a'', VNum (Fin a)), (''b'', VNum (Fin b))] =
      Returns (VNum (js_add (Fin a) (Fin b)))"
    using assms js_arith_a_plus_b unfolding agrees_def by blast
  from evaluate_a_plus_b[where run = run, OF this] show ?thesis by simp
qed

theorem evaluate_sum_witness:
  "agrees arith_host \<and>
   evaluate arith_host (Fin 4) ''a+b''
     [(''a'', VNum (Fin (1 / 4))), (''b'', VNum (Fin (7378697629483821 / 2 ^ 67)))] = Fin (1 / 4) \<and>
   evaluate arith_host (Fin 4) ''a+b'' [(''a'', VNum (Fin 3)), (''b'', VNum (Fin (3 / 4)))] =
     Fin (15 / 4)"
proof -
  have s: "to_double (3 + 3 / 4) = Fin (15 / 4)" "to_double (15 / 4) = Fin (15 / 4)"
    using to_double_exact[of 15 "- 2"] by simp_all
  have f: "fixed_value (15 / 4) 4 = 15 / 4" by (simp add: fixed_value_def)
  have t: "toFixed x (Fin 4) = Some (fixed_value x 4)" for x
    by (simp add: toFixed_def)
  have "evaluate arith_host (Fin 4) ''a+b''
     [(''a'', VNum (Fin (1 / 4))), (''b'', VNum (Fin (7378697629483821 / 2 ^ 67)))] = Fin (1 / 4)"
    unfolding evaluate_sum [OF agrees_arith_host] quarter_sum jsnum.case t option.case
      quarter_fixed quarter_double by (rule refl)
  moreover have "evaluate arith_host (Fin 4) ''a+b''
     [(''a'', VNum (Fin 3)), (''b'', VNum (Fin (3 / 4)))] = Fin (15 / 4)"
    unfolding evaluate_sum [OF agrees_arith_host] s jsnum.case t option.case f by (rule refl)
  ultimately show ?thesis using agrees_arith_host by blast
qed

text \<open>
  C1 as stated fails twice. With the default precision 4, the finite numbers
  \<open>2\<^sup>1\<^sup>0\<^sup>2\<^sup>3\<close> and \<open>2\<^sup>1\<^sup>0\<^sup>2\<^sup>3\<close> evaluate to 0 and not to their sum; with the precision
  configured as 101, the numbers 1 and 2 evaluate to 0 and not to 3.
\<close>

theorem evaluate_sum_counterexample:
  "evaluate arith_host (Fin 4) ''a+b''
     [(''a'', VNum (Fin (2 ^ 1023))), (''b'', VNum (Fin (2 ^ 1023)))] = Fin 0 \<and>
   fixed_value (2 ^ 1023 + 2 ^ 1023) 4 \<noteq> 0 \<and>
   evaluate arith_host (Fin 101) ''a+b'' [(''a'', VNum (Fin 1)), (''b'', VNum (Fin 2))] = Fin 0 \<and>
   fixed_value (1 + 2) 4 \<noteq> 0"
proof -
  have ab: "arith_host ''a+b'' [(''a'', VNum x), (''b'', VNum y)] = Returns (VNum (js_add x y))" for x y
    by (simp add: arith_host_def js_arith_a_plus_b)
  have o: "to_double (2 ^ 1023 + 2 ^ 1023) = PosInf"
    by (simp add: to_double_overflow signed_inf_def)
  have "evaluate arith_host (Fin 4) ''a+b''
     [(''a'', VNum (Fin (2 ^ 1023))), (''b'', VNum (Fin (2 ^ 1023)))] = Fin 0"
    unfolding evaluate_a_plus_b [where run = arith_host, OF ab] js_add.simps o by simp
  moreover have "evaluate arith_host (Fin 101) ''a+b'' [(''a'', VNum (Fin 1)), (''b'', VNum (Fin 2))] = Fin 0"
    unfolding evaluate_a_plus_b [where run = arith_host, OF ab] by (simp add: toFixed_def)
  moreover have "fixed_value (2 ^ 1023 + 2 ^ 1023) 4 \<noteq> 0" "fixed_value (1 + 2) 4 \<noteq> 0"
    by (simp_all add: fixed_value_def)
  ultimately show ?thesis by blast
qed

text \<open>
  C2 at a failing input. The formula \<open>k\<close> evaluates to an object that \<open>isFinite\<close>
  converts to 1 and whose \<open>toFixed\<close> returns \<open>abc\<close>: the check for a finite result
  passes, \<open>parseFloat\<close> reads \<open>abc\<close>, and \<open>evaluate\<close> returns NaN.
\<close>

theorem evaluate_returns_nan:
  "odd_host (sanitize ''k'') [] = ReturnsObject odd_object \<and>
   as_number odd_object = Some (Fin 1) \<and>
   call_toFixed odd_object = CallReturns ''abc'' \<and>
   evaluate odd_host (Fin 4) ''k'' [] = NaN \<and>
   \<not> is_finite (evaluate odd_host (Fin 4) ''k'' [])"
proof -
  have s: "sanitize ''k'' = ''k''"
    by (simp add: sanitize_def is_word_def is_space_def)
  have p: "parseFloat ''abc'' = NaN"
    by (simp add: parseFloat_def str_decimal_def unsigned_decimal_def is_space_def is_digit_def
        starts_with_def)
  show ?thesis
    by (simp add: evaluate_def s odd_host_def odd_object_def p)
qed

section \<open>Properties of the value store and the groups\<close>


lemma frame_refl: "frame st st"
  by (simp add: frame_def)

lemma frame_trans: "frame a b \<Longrightarrow> frame b c \<Longrightarrow> frame a c"
  unfolding frame_def by auto

lemma frame_store_group:
  assumes "map_of (groups st) g = Some grp"
  shows "frame st (store_group g grp st)"
proof -
  have "g \<in> fst ` set (groups st)"
    using assms by (metis map_of_eq_None_iff option.distinct(1))
  then show ?thesis
    by (auto simp: frame_def store_group_def Let_def AList.dom_update AList.update_conv')
qed

lemma cascade_frame:
  "notify n subs c st = Some st' \<Longrightarrow> frame st st'"
  "updateGroupValue n g st = Some st' \<Longrightarrow> frame st st'"
proof (induction n subs c st and n g st arbitrary: st' and st' rule: notify_updateGroupValue.induct)
  case (1 n changed st)
  then show ?case by (simp add: frame_refl)
next
  case (2 n sub subs changed st)
  show ?case
  proof (cases "fst sub = changed")
    case True
    with 2(3) obtain st1 where u: "updateGroupValue n (snd sub) st = Some st1"
      and r: "notify n subs changed st1 = Some st'"
      by (auto split: option.splits)
    have "frame st st1" using 2(1)[OF True u] .
    moreover have "frame st1 st'" using 2(2)[of st1 st'] True u r by simp
    ultimately show ?thesis by (rule frame_trans)
  next
    case False
    with 2(3) have r: "notify n subs changed st = Some st'" by simp
    show ?thesis using 2(2)[of st st'] False r by simp
  qed
next
  case (3 groupName st)
  then show ?case by simp
next
  case (4 n groupName st)
  show ?case
  proof (cases "map_of (groups st) groupName")
    case None
    with 4(2) show ?thesis by (simp add: frame_refl)
  next
    case (Some grp)
    with 4(2) have r: "notify n (subscriptions st) groupName (store_group groupName grp st) = Some st'"
      by simp
    have "frame (store_group groupName grp st) st'" using 4(1)[OF Some r] .
    with frame_store_group[OF Some] show ?thesis by (rule frame_trans)
  qed
qed




subsection \<open>Evaluation of the example pages\<close>

lemmas num_defs = parseFloat_def clean_numeric_def str_decimal_def unsigned_decimal_def
  exponent_part_def scale10_def signed_inf_def js_sub_def

lemmas el_defs = html_input_def input_types_def lower_def lower_char_def getAttribute_def
  hasAttribute_def getCellId_def cell_of_def getElementType_def is_toggle_def getToggleValue_def
  getSelectValue_def clampValue_def getElementValue_def el_name_def math_max_def math_min_def

lemmas calc_defs = store_group_def groupValue_def elements_of_def
  calculate_def formula_step_def formula_of_def write_throws_def setValue_def emit_changed_def
  dispatch_change_def run_listener_def listens_to_change_def update_page_def set_checked_def
  radio_button_def lacks_options_def handleRadioChange_def Let_def

lemmas str_defs = is_digit_def is_space_def digits_val_def digit_val_def starts_with_def

lemmas init_defs = new_calc_def initialize_def init_inputs_def registerInput_def init_groups_def
  createGroup_def group_members_def group_names_def

text \<open>The example calculators are what \<open>initialize\<close> makes of their pages.\<close>

lemma init_bounded: "initialize run n (new_calc bounded_page) = Some bounded_calc"
  by (simp add: bounded_page_def bounded_calc_def init_defs calc_defs el_defs num_defs str_defs)

lemma init_order:
  "initialize arith_engine n (new_calc order_page) =
     Some ((order_calc (VNum (Fin 3)) (VNum (Fin 4)) (VNum (Fin 8)))
       \<lparr>dom := order_page[1 := (order_page ! 1)\<lparr>el_value := VNum (Fin 4)\<rparr>,
                           2 := (order_page ! 2)\<lparr>el_value := VNum (Fin 8)\<rparr>],
        emitted := [(''F1'', VNum (Fin 4)), (''F2'', VNum (Fin 8))], ticks := 2\<rparr>)"
  by (simp add: order_page_def order_calc_def init_defs calc_defs el_defs num_defs str_defs upt_rec
      evaluate_def sanitize_def arith_engine_def arith_host_def js_arith_def lex_defs parse_def
      eval_nat_numeral isFinite_def toFixed_def fixed_value_def id_defs)

lemma init_cycle:
  "initialize arith_engine n (new_calc cycle_page) =
     Some ((cycle_calc (VNum (Fin 1)))
       \<lparr>dom := cycle_page[0 := (cycle_page ! 0)\<lparr>el_value := VNum (Fin 1)\<rparr>],
        emitted := [(''F'', VNum (Fin 1))], ticks := 1\<rparr>)"
  by (simp add: cycle_page_def cycle_calc_def init_defs calc_defs el_defs num_defs str_defs upt_rec
      evaluate_def sanitize_def arith_engine_def arith_host_def js_arith_def lex_defs parse_def
      eval_nat_numeral isFinite_def toFixed_def fixed_value_def id_defs)

lemma additive_values:
  "getElementValue (additive_page ! 0) = Fin 5" "getElementValue (additive_page ! 1) = Fin 0"
  by (simp_all add: additive_page_def el_defs num_defs str_defs)

lemma init_additive_inputs: "init_inputs (new_calc additive_page) = additive_inputs"
  by (simp add: additive_inputs_def additive_calc_def additive_page_def init_defs calc_defs el_defs
      num_defs str_defs upt_rec)

lemma additive_group_names: "group_names additive_inputs = [''g'']"
  by (simp add: group_names_def additive_inputs_def additive_calc_def additive_page_def el_defs upt_rec)

lemma additive_group_members: "group_members additive_inputs ''g'' = [0, Suc 0]"
  by (simp add: group_members_def additive_inputs_def additive_calc_def additive_page_def el_defs upt_rec)

lemma additive_createGroup:
  "createGroup (Suc n) ''g'' [0, Suc 0] additive_inputs = Some additive_calc"
  by (simp add: createGroup_def additive_inputs_def additive_calc_def additive_page_def calc_defs el_defs
      num_defs str_defs)

lemma init_additive: "initialize run (Suc n) (new_calc additive_page) = Some additive_calc"
proof -
  have "init_groups (Suc n) additive_inputs = Some additive_calc"
    by (simp add: init_groups_def additive_group_names additive_group_members additive_createGroup)
  moreover have "calculate run (Suc n) additive_calc = Some additive_calc"
    by (simp add: calculate_def additive_calc_def)
  ultimately show ?thesis by (simp add: initialize_def init_additive_inputs)
qed

subsection \<open>Bounds\<close>

text \<open>
  Where a value is read from an element (by the handler of the element and at
  registration), it is clamped: with a minimum and a maximum that are numbers, the minimum
  not above the maximum, \<open>getElementValue\<close> lies between them.
\<close>

lemma parseNumeric_finite: "is_finite (parseNumeric v)"
  by (cases v) (auto simp: Let_def)

lemma element_read_finite:
  "is_finite (getSelectValue e)" "is_finite (getToggleValue e)"
  by (simp_all add: getSelectValue_def getToggleValue_def parseNumeric_finite
      del: parseNumeric.simps split: option.splits)

lemma clamp_bounds:
  assumes "\<not> js_isNaN v" and "\<not> js_isNaN lo" and "\<not> js_isNaN hi" and "\<not> js_lt hi lo"
  shows "\<not> js_lt (math_min (math_max v lo) hi) lo \<and> \<not> js_lt hi (math_min (math_max v lo) hi)"
  using assms by (cases v; cases lo; cases hi) (auto simp: math_max_def math_min_def)

lemma getElementValue_clamped:
  assumes "getAttribute e ''data-alphacalc-min'' = Some a"
    and "getAttribute e ''data-alphacalc-max'' = Some b"
    and "\<not> js_isNaN (parseFloat a)" and "\<not> js_isNaN (parseFloat b)"
    and "\<not> js_lt (parseFloat b) (parseFloat a)"
  shows "\<not> js_lt (getElementValue e) (parseFloat a) \<and> \<not> js_lt (parseFloat b) (getElementValue e)"
proof -
  have nn: "\<not> js_isNaN x" if "is_finite x" for x using that by (cases x) auto
  obtain v where v: "getElementValue e = clampValue v e" and f: "is_finite v"
    by (simp add: getElementValue_def Let_def parseNumeric_finite element_read_finite
        del: parseNumeric.simps)
  have "clampValue v e = math_min (math_max v (parseFloat a)) (parseFloat b)"
    using assms(1-4) by (simp add: clampValue_def Let_def)
  with clamp_bounds[OF nn[OF f] assms(3,4,5)] v show ?thesis by simp
qed

text \<open>
  The handler of the number input \<open>x\<close> with the bounds 0 and 100, after the user has
  typed 1000: the store gets 100.
\<close>

lemma listener_clamps:
  "map_option inputValues
     (run_listener (Suc 0) \<lparr>l_element = 0, l_elementType = ''input'', l_cellId = ''x''\<rparr>
        (bounded_calc\<lparr>dom := [(bounded_page ! 0)\<lparr>el_value := VStr ''1000''\<rparr>]\<rparr>)) =
     Some [(''x'', VNum (Fin 100))]"
  by (simp add: bounded_calc_def bounded_page_def calc_defs el_defs num_defs str_defs)

subsection \<open>Writing and reading the store\<close>

text \<open>
  C3 at a failing input: the number input \<open>x\<close> carries the bounds 0 and 100, clamping
  1000 against them gives 100, and the public \<open>setValue\<close> stores 1000 and emits 1000.
\<close>

theorem setValue_ignores_bounds:
  "hasAttribute (bounded_page ! 0) ''data-alphacalc-min'' \<and>
   hasAttribute (bounded_page ! 0) ''data-alphacalc-max'' \<and>
   clampValue (Fin 1000) (bounded_page ! 0) = Fin 100 \<and>
   map_option inputValues (api_setValue (Suc 0) ''x'' (VNum (Fin 1000)) bounded_calc) =
     Some [(''x'', VNum (Fin 1000))] \<and>
   map_option emitted (api_setValue (Suc 0) ''x'' (VNum (Fin 1000)) bounded_calc) =
     Some [(''x'', VNum (Fin 1000))]"
  by (simp add: api_setValue_def bounded_calc_def bounded_page_def calc_defs el_defs num_defs is_digit_def is_space_def digits_val_def digit_val_def starts_with_def)

text \<open>
  C6 at a failing input: the public \<open>setValue\<close> with NaN leaves NaN in the store, and
  \<open>getAllValues\<close> returns it.
\<close>

theorem setValue_stores_nan:
  "map_option getAllValues (api_setValue (Suc 0) ''x'' (VNum NaN) bounded_calc) =
     Some [(''x'', VNum NaN)]"
  by (simp add: api_setValue_def getAllValues_def bounded_calc_def bounded_page_def calc_defs el_defs)

text \<open>
  C5 at a failing input: the group \<open>g\<close> aggregates to 5, and the public \<open>setValue\<close>
  with the group's name puts 99 in the store under that name.
\<close>

theorem setValue_overwrites_group:
  "map_of (groups additive_calc) ''g'' =
     Some \<lparr>g_elements = [0, 1], isRadioGroup = False, g_value = Fin 5\<rparr> \<and>
   groupValue additive_calc \<lparr>g_elements = [0, 1], isRadioGroup = False, g_value = Fin 5\<rparr> = Fin 5 \<and>
   map_option getAllValues (api_setValue (Suc 0) ''g'' (VNum (Fin 99)) additive_calc) =
     Some [(''a'', VNum (Fin 5)), (''b'', VNum (Fin 0)), (''g'', VNum (Fin 99))]"
  by (simp add: api_setValue_def getAllValues_def additive_calc_def additive_page_def calc_defs el_defs num_defs is_digit_def is_space_def digits_val_def digit_val_def starts_with_def)

lemma truthy_iff: "truthy v \<longleftrightarrow> v \<notin> falsy_values"
  by (cases v rule: truthy.cases) (auto simp: falsy_values_def)

text \<open>
  C10, as amended. \<open>getValue\<close> never returns NaN. It returns 0 when the id is absent
  and when the stored value is one that \<open>||\<close> takes for false: NaN, undefined, null,
  false, the empty string or 0. Otherwise it returns the stored value.
\<close>

theorem getValue_coerces_falsy:
  "getValue st c \<noteq> VNum NaN \<and>
   (map_of (inputValues st) c = None \<longrightarrow> getValue st c = VNum (Fin 0)) \<and>
   (\<forall>v. map_of (inputValues st) c = Some v \<longrightarrow>
      getValue st c = (if v \<in> falsy_values then VNum (Fin 0) else v))"
  by (auto simp: getValue_def truthy_iff falsy_values_def split: option.splits)

theorem getValue_coerces_falsy_witness:
  "map_of (inputValues (bounded_calc\<lparr>inputValues := [(''x'', VNum NaN), (''y'', VNum (Fin 7))]\<rparr>)) ''z'' = None \<and>
   getValue (bounded_calc\<lparr>inputValues := [(''x'', VNum NaN), (''y'', VNum (Fin 7))]\<rparr>) ''z'' = VNum (Fin 0) \<and>
   map_of (inputValues (bounded_calc\<lparr>inputValues := [(''x'', VNum NaN), (''y'', VNum (Fin 7))]\<rparr>)) ''x'' = Some (VNum NaN) \<and>
   getValue (bounded_calc\<lparr>inputValues := [(''x'', VNum NaN), (''y'', VNum (Fin 7))]\<rparr>) ''x'' = VNum (Fin 0) \<and>
   map_of (inputValues (bounded_calc\<lparr>inputValues := [(''x'', VNum NaN), (''y'', VNum (Fin 7))]\<rparr>)) ''y'' = Some (VNum (Fin 7)) \<and>
   getValue (bounded_calc\<lparr>inputValues := [(''x'', VNum NaN), (''y'', VNum (Fin 7))]\<rparr>) ''y'' = VNum (Fin 7)"
  using getValue_coerces_falsy [of "bounded_calc\<lparr>inputValues := [(''x'', VNum NaN), (''y'', VNum (Fin 7))]\<rparr>" "''z''"]
    getValue_coerces_falsy [of "bounded_calc\<lparr>inputValues := [(''x'', VNum NaN), (''y'', VNum (Fin 7))]\<rparr>" "''x''"]
    getValue_coerces_falsy [of "bounded_calc\<lparr>inputValues := [(''x'', VNum NaN), (''y'', VNum (Fin 7))]\<rparr>" "''y''"]
  by (simp add: falsy_values_def)

text \<open>
  C10 as stated fails: the store holds null under \<open>x\<close>, which is neither NaN nor
  undefined, and \<open>getValue\<close> returns 0 and not the stored value.
\<close>

theorem getValue_null_counterexample:
  "map_of (inputValues (bounded_calc\<lparr>inputValues := [(''x'', VNull)]\<rparr>)) ''x'' = Some VNull \<and>
   VNull \<noteq> VNum NaN \<and> VNull \<noteq> VUndefined \<and>
   getValue (bounded_calc\<lparr>inputValues := [(''x'', VNull)]\<rparr>) ''x'' = VNum (Fin 0) \<and>
   getValue (bounded_calc\<lparr>inputValues := [(''x'', VNull)]\<rparr>) ''x'' \<noteq> VNull"
  by (simp add: getValue_def)

text \<open>
  C4 at a failing input: \<open>F1\<close> is a formula cell that holds 4, the result of its formula
  for \<open>x = 3\<close>; after the public \<open>setValue\<close> with 99, \<open>getValue\<close> returns 99.
\<close>

theorem setValue_overwrites_formula:
  "hasAttribute (order_page ! 1) ''data-alphacalc-formula'' \<and>
   getValue (order_calc (VNum (Fin 3)) (VNum (Fin 4)) (VNum (Fin 8))) ''F1'' = VNum (Fin 4) \<and>
   getValue_after (api_setValue (Suc 0) ''F1'' (VNum (Fin 99))
     (order_calc (VNum (Fin 3)) (VNum (Fin 4)) (VNum (Fin 8)))) ''F1'' = Some (VNum (Fin 99))"
  by (simp add: getValue_after_def getValue_def api_setValue_def order_calc_def order_page_def
      calc_defs el_defs)











lemma sanitize_formulas: "sanitize ''x+1'' = ''x+1''" "sanitize ''F1*2'' = ''F1*2''"
  by (simp_all add: sanitize_def is_word_def is_space_def)

lemma js_arith_x_plus_1:
  "js_arith ''x+1'' [(''x'', VNum v), (''F1'', a), (''F2'', b)] =
     Some (Returns (VNum (js_add v (Fin 1))))"
  by (simp add: js_arith_def lex_defs parse_def eval_nat_numeral id_defs)

lemma js_arith_F1_times_2:
  "js_arith ''F1*2'' [(''x'', x), (''F1'', VNum v), (''F2'', b)] =
     Some (Returns (VNum (js_mul v (Fin 2))))"
  by (simp add: js_arith_def lex_defs parse_def eval_nat_numeral id_defs)

lemma evaluate_number:
  assumes "run (sanitize formula) ctx = Returns (VNum v)"
  shows "evaluate run (Fin 4) formula ctx =
    (case v of Fin s \<Rightarrow> to_double (fixed_value s 4) | _ \<Rightarrow> Fin 0)"
  using assms by (simp add: evaluate_def isFinite_def toFixed_def split: jsnum.splits)

lemma calculate_order:
  "calculate run n ((order_calc x a b)\<lparr>ticks := t\<rparr>) =
     Some ((order_calc x
              (VNum (evaluate (run t) (Fin 4) ''x+1'' [(''x'', x), (''F1'', a), (''F2'', b)]))
              (VNum (evaluate (run (Suc t)) (Fin 4) ''F1*2''
                 [(''x'', x),
                  (''F1'', VNum (evaluate (run t) (Fin 4) ''x+1'' [(''x'', x), (''F1'', a), (''F2'', b)])),
                  (''F2'', b)])))
           \<lparr>dom := order_page
               [1 := (order_page ! 1)\<lparr>el_value :=
                   VNum (evaluate (run t) (Fin 4) ''x+1'' [(''x'', x), (''F1'', a), (''F2'', b)])\<rparr>,
                2 := (order_page ! 2)\<lparr>el_value :=
                   VNum (evaluate (run (Suc t)) (Fin 4) ''F1*2''
                 [(''x'', x),
                  (''F1'', VNum (evaluate (run t) (Fin 4) ''x+1'' [(''x'', x), (''F1'', a), (''F2'', b)])),
                  (''F2'', b)])\<rparr>],
             emitted :=
               [(''F1'', VNum (evaluate (run t) (Fin 4) ''x+1'' [(''x'', x), (''F1'', a), (''F2'', b)])),
                (''F2'', VNum (evaluate (run (Suc t)) (Fin 4) ''F1*2''
                 [(''x'', x),
                  (''F1'', VNum (evaluate (run t) (Fin 4) ''x+1'' [(''x'', x), (''F1'', a), (''F2'', b)])),
                  (''F2'', b)]))],
             ticks := Suc (Suc t)\<rparr>)"
  by (simp add: order_calc_def order_page_def calc_defs el_defs)


text \<open>
  C8. With \<open>F1 = x+1\<close> registered before \<open>F2 = F1*2\<close>, one pass leaves in \<open>F1\<close> the
  result of its formula in the store as the pass found it, and in \<open>F2\<close> the result of its
  formula in the store that already holds the new \<open>F1\<close>; it emits the two changes in this
  order. This holds whatever the engine answers to its two calls. On an engine that agrees
  with the arithmetic fragment and for a finite \<open>x\<close>, the results are \<open>x + 1\<close> and
  twice the first result, each rounded to a double, then to 4 decimals and read back as a
  double, with 0 in place of an overflow.
\<close>

theorem calculate_in_registration_order:
  "(let r1 = evaluate (run t) (Fin 4) ''x+1'' [(''x'', x), (''F1'', a), (''F2'', b)];
        r2 = evaluate (run (Suc t)) (Fin 4) ''F1*2'' [(''x'', x), (''F1'', VNum r1), (''F2'', b)]
    in map_option inputValues (calculate run n ((order_calc x a b)\<lparr>ticks := t\<rparr>)) =
         Some [(''x'', x), (''F1'', VNum r1), (''F2'', VNum r2)] \<and>
       map_option emitted (calculate run n ((order_calc x a b)\<lparr>ticks := t\<rparr>)) =
         Some [(''F1'', VNum r1), (''F2'', VNum r2)] \<and>
       ((\<forall>k. agrees (run k)) \<and> x = VNum (Fin X) \<longrightarrow>
          r1 = (case to_double (X + 1) of Fin s \<Rightarrow> to_double (fixed_value s 4) | _ \<Rightarrow> Fin 0) \<and>
          r2 = (case js_mul r1 (Fin 2) of Fin s \<Rightarrow> to_double (fixed_value s 4) | _ \<Rightarrow> Fin 0)))"
proof -
  have arith: "evaluate (run t) (Fin 4) ''x+1'' [(''x'', VNum (Fin X)), (''F1'', a), (''F2'', b)] =
        (case to_double (X + 1) of Fin s \<Rightarrow> to_double (fixed_value s 4) | _ \<Rightarrow> Fin 0) \<and>
      evaluate (run (Suc t)) (Fin 4) ''F1*2'' [(''x'', VNum (Fin X)), (''F1'', VNum v), (''F2'', b)] =
        (case js_mul v (Fin 2) of Fin s \<Rightarrow> to_double (fixed_value s 4) | _ \<Rightarrow> Fin 0)"
    if ag: "\<forall>k. agrees (run k)" for v
  proof -
    have 1: "run t (sanitize ''x+1'') [(''x'', VNum (Fin X)), (''F1'', a), (''F2'', b)] =
        Returns (VNum (js_add (Fin X) (Fin 1)))"
      using ag js_arith_x_plus_1 unfolding agrees_def sanitize_formulas by blast
    have 2: "run (Suc t) (sanitize ''F1*2'') [(''x'', VNum (Fin X)), (''F1'', VNum v), (''F2'', b)] =
        Returns (VNum (js_mul v (Fin 2)))"
      using ag js_arith_F1_times_2 unfolding agrees_def sanitize_formulas by blast
    show ?thesis
      using evaluate_number[where run = "run t", OF 1]
        evaluate_number[where run = "run (Suc t)", OF 2] by simp
  qed
  show ?thesis
    unfolding Let_def
    apply (intro conjI impI)
    subgoal by (subst calculate_order) (simp add: order_calc_def)
    subgoal by (subst calculate_order) (simp add: order_calc_def)
    subgoal using arith by simp
    subgoal using arith by simp
    done
qed

theorem calculate_in_registration_order_witness:
  "(\<forall>k. agrees (arith_engine k)) \<and>
   map_option inputValues
     (calculate arith_engine 0 ((order_calc (VNum (Fin 3)) (VNum (Fin 0)) (VNum (Fin 0)))\<lparr>ticks := 0\<rparr>)) =
     Some [(''x'', VNum (Fin 3)), (''F1'', VNum (Fin 4)), (''F2'', VNum (Fin 8))] \<and>
   map_option emitted
     (calculate arith_engine 0 ((order_calc (VNum (Fin 3)) (VNum (Fin 0)) (VNum (Fin 0)))\<lparr>ticks := 0\<rparr>)) =
     Some [(''F1'', VNum (Fin 4)), (''F2'', VNum (Fin 8))]"
proof -
  have ag: "\<forall>k. agrees (arith_engine k)"
    by (simp add: arith_engine_def agrees_arith_host)
  have v: "fixed_value 4 4 = 4" "fixed_value 8 4 = 8"
    by (simp_all add: fixed_value_def)
  note t = calculate_in_registration_order
      [of arith_engine 0 "VNum (Fin 3)" "VNum (Fin 0)" "VNum (Fin 0)" 0 3, unfolded Let_def]
  from t ag
  have e1: "evaluate (arith_engine 0) (Fin 4) ''x+1''
             [(''x'', VNum (Fin 3)), (''F1'', VNum (Fin 0)), (''F2'', VNum (Fin 0))] = Fin 4"
    by (simp add: v)
  from t ag
  have "evaluate (arith_engine (Suc 0)) (Fin 4) ''F1*2''
       [(''x'', VNum (Fin 3)),
        (''F1'', VNum (evaluate (arith_engine 0) (Fin 4) ''x+1''
             [(''x'', VNum (Fin 3)), (''F1'', VNum (Fin 0)), (''F2'', VNum (Fin 0))])),
        (''F2'', VNum (Fin 0))] =
     (case js_mul (evaluate (arith_engine 0) (Fin 4) ''x+1''
             [(''x'', VNum (Fin 3)), (''F1'', VNum (Fin 0)), (''F2'', VNum (Fin 0))]) (Fin 2) of
        Fin s \<Rightarrow> to_double (fixed_value s 4) | _ \<Rightarrow> Fin 0)"
    by blast
  then have e2: "evaluate (arith_engine (Suc 0)) (Fin 4) ''F1*2''
       [(''x'', VNum (Fin 3)), (''F1'', VNum (Fin 4)), (''F2'', VNum (Fin 0))] = Fin 8"
    unfolding e1 by (simp add: v)
  from t have "map_option inputValues
     (calculate arith_engine 0 ((order_calc (VNum (Fin 3)) (VNum (Fin 0)) (VNum (Fin 0)))\<lparr>ticks := 0\<rparr>)) =
     Some [(''x'', VNum (Fin 3)),
       (''F1'', VNum (evaluate (arith_engine 0) (Fin 4) ''x+1''
             [(''x'', VNum (Fin 3)), (''F1'', VNum (Fin 0)), (''F2'', VNum (Fin 0))])),
       (''F2'', VNum (evaluate (arith_engine (Suc 0)) (Fin 4) ''F1*2''
       [(''x'', VNum (Fin 3)),
        (''F1'', VNum (evaluate (arith_engine 0) (Fin 4) ''x+1''
             [(''x'', VNum (Fin 3)), (''F1'', VNum (Fin 0)), (''F2'', VNum (Fin 0))])),
        (''F2'', VNum (Fin 0))]))]"
    and "map_option emitted
     (calculate arith_engine 0 ((order_calc (VNum (Fin 3)) (VNum (Fin 0)) (VNum (Fin 0)))\<lparr>ticks := 0\<rparr>)) =
     Some [(''F1'', VNum (evaluate (arith_engine 0) (Fin 4) ''x+1''
             [(''x'', VNum (Fin 3)), (''F1'', VNum (Fin 0)), (''F2'', VNum (Fin 0))])),
       (''F2'', VNum (evaluate (arith_engine (Suc 0)) (Fin 4) ''F1*2''
       [(''x'', VNum (Fin 3)),
        (''F1'', VNum (evaluate (arith_engine 0) (Fin 4) ''x+1''
             [(''x'', VNum (Fin 3)), (''F1'', VNum (Fin 0)), (''F2'', VNum (Fin 0))])),
        (''F2'', VNum (Fin 0))]))]"
    by blast+
  then show ?thesis
    unfolding e1 e2 using ag by blast
qed

section \<open>Properties of the recompute pass\<close>


















lemma js_arith_x_plus_1_indep:
  assumes "map fst s = map fst s'" and "map_of s ''x'' = map_of s' ''x''"
  shows "js_arith ''x+1'' s = js_arith ''x+1'' s'"
proof -
  have l: "lex (length ''x+1'') ''x+1'' = Some [TId ''x'', TPlus, TNum 1]"
    by (simp add: lex_defs)
  have p: "parse [TId ''x'', TPlus, TNum 1] = Some (Add (Var ''x'') (Lit 1))"
    by (simp add: parse_def eval_nat_numeral)
  have n: "length s = length s'" using assms(1) by (metis length_map)
  show ?thesis
    unfolding js_arith_def by (subst l)+ (simp add: p assms n)
qed








text \<open>
  The other conditions are needed as well. A formula that reads no cell, but the clock,
  gives another value in the second pass; a custom calculation that counts changes the
  store in every pass; and where a group handler waits for a formula cell, the write of
  that cell changes the group's aggregate, which a formula registered earlier may read:
  with \<open>G = g*2\<close> before \<open>F = x+1\<close> and \<open>F\<close> the member of \<open>g\<close>, the first pass
  leaves 0 in \<open>G\<close> and the second 8, while every other condition holds.
\<close>

lemma clock_formula_not_idempotent:
  "map_option inputValues (calculate stamp_engine 0 stamp_calc) = Some [(''T'', VNum (Fin 0))] \<and>
   map_option inputValues
     (Option.bind (calculate stamp_engine 0 stamp_calc) (calculate stamp_engine 0)) =
     Some [(''T'', VNum (Fin 1))]"
proof -
  have s: "sanitize ''Date.now()'' = ''Date.now()''"
    by (simp add: sanitize_def is_word_def is_space_def)
  have e: "evaluate (stamp_engine 0) (Fin 4) ''Date.now()'' ctx = Fin 0"
    "evaluate (stamp_engine (Suc 0)) (Fin 4) ''Date.now()'' ctx = Fin 1" for ctx
    by (simp_all add: evaluate_def s stamp_engine_def isFinite_def toFixed_def fixed_value_def)
  show ?thesis
    by (simp add: stamp_calc_def stamp_page_def calc_defs el_defs e)
qed

lemma custom_calculation_not_idempotent:
  "map_option inputValues (calculate run 0 counter_calc) = Some [(''n'', VNum (Fin 1))] \<and>
   map_option inputValues (Option.bind (calculate run 0 counter_calc) (calculate run 0)) =
     Some [(''n'', VNum (Fin 2))]"
  by (simp add: counter_calc_def counter_hook_def calculate_def)

lemma init_cascade:
  "init_groups (Suc n) (init_inputs (new_calc cascade_page)) = Some cascade_calc"
  by (simp add: cascade_page_def cascade_calc_def init_defs calc_defs el_defs num_defs str_defs upt_rec)

lemma js_arith_g_times_2_indep:
  assumes "map fst s = map fst s'" and "map_of s ''g'' = map_of s' ''g''"
  shows "js_arith ''g*2'' s = js_arith ''g*2'' s'"
proof -
  have l: "lex (length ''g*2'') ''g*2'' = Some [TId ''g'', TStar, TNum 2]"
    by (simp add: lex_defs)
  have p: "parse [TId ''g'', TStar, TNum 2] = Some (Mul (Var ''g'') (Lit 2))"
    by (simp add: parse_def eval_nat_numeral)
  have n: "length s = length s'" using assms(1) by (metis length_map)
  show ?thesis
    unfolding js_arith_def by (subst l)+ (simp add: p assms n)
qed

lemma cascade_forward_only:
  "forward_only arith_engine d [(''G'', ''g*2''), (''F'', ''x+1'')]"
proof -
  have 1: "evaluate (arith_engine t) d ''g*2'' s = evaluate (arith_engine t') d ''g*2'' s'"
    if "map fst s = map fst s'" and "\<forall>k. k \<notin> {''G'', ''F''} \<longrightarrow> map_of s k = map_of s' k"
    for s s' t t'
  proof -
    from that(2) have "map_of s ''g'' = map_of s' ''g''" by simp
    from js_arith_g_times_2_indep[OF that(1) this] show ?thesis
      by (simp add: evaluate_def arith_engine_def arith_host_def sanitize_def is_word_def
          is_space_def)
  qed
  have 2: "evaluate (arith_engine t) d ''x+1'' s = evaluate (arith_engine t') d ''x+1'' s'"
    if "map fst s = map fst s'" and "\<forall>k. k \<notin> {''F''} \<longrightarrow> map_of s k = map_of s' k"
    for s s' t t'
  proof -
    from that(2) have "map_of s ''x'' = map_of s' ''x''" by simp
    from js_arith_x_plus_1_indep[OF that(1) this] show ?thesis
      by (simp add: evaluate_def arith_engine_def arith_host_def sanitize_formulas)
  qed
  have a: "\<forall>t t' s s'. map fst s = map fst s' \<and>
      (\<forall>k. k \<notin> insert (fst (''G'', ''g*2'')) (fst ` set [(''F'', ''x+1'')]) \<longrightarrow>
           map_of s k = map_of s' k) \<longrightarrow>
      evaluate (arith_engine t) d (snd (''G'', ''g*2'')) s =
      evaluate (arith_engine t') d (snd (''G'', ''g*2'')) s'"
  proof (intro allI impI)
    fix s s' :: bindings and t t' :: nat
    assume h: "map fst s = map fst s' \<and>
      (\<forall>k. k \<notin> insert (fst (''G'', ''g*2'')) (fst ` set [(''F'', ''x+1'')]) \<longrightarrow>
           map_of s k = map_of s' k)"
    then have "map fst s = map fst s'" "\<forall>k. k \<notin> {''G'', ''F''} \<longrightarrow> map_of s k = map_of s' k"
      by simp_all
    from 1[OF this] show "evaluate (arith_engine t) d (snd (''G'', ''g*2'')) s =
        evaluate (arith_engine t') d (snd (''G'', ''g*2'')) s'"
      by (simp only: snd_conv)
  qed
  have b: "\<forall>t t' s s'. map fst s = map fst s' \<and>
      (\<forall>k. k \<notin> insert (fst (''F'', ''x+1'')) (fst ` set []) \<longrightarrow> map_of s k = map_of s' k) \<longrightarrow>
      evaluate (arith_engine t) d (snd (''F'', ''x+1'')) s =
      evaluate (arith_engine t') d (snd (''F'', ''x+1'')) s'"
  proof (intro allI impI)
    fix s s' :: bindings and t t' :: nat
    assume h: "map fst s = map fst s' \<and>
      (\<forall>k. k \<notin> insert (fst (''F'', ''x+1'')) (fst ` set []) \<longrightarrow> map_of s k = map_of s' k)"
    then have "map fst s = map fst s'" "\<forall>k. k \<notin> {''F''} \<longrightarrow> map_of s k = map_of s' k"
      by simp_all
    from 2[OF this] show "evaluate (arith_engine t) d (snd (''F'', ''x+1'')) s =
        evaluate (arith_engine t') d (snd (''F'', ''x+1'')) s'"
      by (simp only: snd_conv)
  qed
  show ?thesis
    unfolding forward_only.simps using a b by blast
qed

lemma group_cascade_not_idempotent:
  "getter_free cascade_calc \<and> calculations cascade_calc = [] \<and>
   distinct (map fst (inputValues cascade_calc)) \<and>
   plan cascade_calc = [(''G'', ''g*2''), (''F'', ''x+1'')] \<and>
   forward_only arith_engine (decimal_input cascade_calc) [(''G'', ''g*2''), (''F'', ''x+1'')] \<and>
   quiet_cell cascade_calc ''G'' \<and> \<not> quiet_cell cascade_calc ''F'' \<and>
   map_option inputValues (calculate arith_engine (Suc 0) cascade_calc) =
     Some [(''x'', VNum (Fin 3)), (''G'', VNum (Fin 0)), (''F'', VNum (Fin 4)), (''g'', VNum (Fin 4))] \<and>
   map_option inputValues
     (Option.bind (calculate arith_engine (Suc 0) cascade_calc) (calculate arith_engine (Suc 0))) =
     Some [(''x'', VNum (Fin 3)), (''G'', VNum (Fin 8)), (''F'', VNum (Fin 4)), (''g'', VNum (Fin 4))]"
proof -
  have s: "sanitize ''g*2'' = ''g*2''" "sanitize ''x+1'' = ''x+1''"
    by (simp_all add: sanitize_def is_word_def is_space_def)
  have g: "arith_host ''g*2'' [(''x'', x), (''G'', a), (''F'', b), (''g'', VNum v)] =
      Returns (VNum (js_mul v (Fin 2)))" for x a b v
    by (simp add: arith_host_def js_arith_def lex_defs parse_def eval_nat_numeral id_defs)
  have f: "arith_host ''x+1'' [(''x'', VNum v), (''G'', a), (''F'', b), (''g'', c)] =
      Returns (VNum (js_add v (Fin 1)))" for a b c v
    by (simp add: arith_host_def js_arith_def lex_defs parse_def eval_nat_numeral id_defs)
  have e: "evaluate (arith_engine t) (Fin 4) ''g*2''
        [(''x'', x), (''G'', a), (''F'', b), (''g'', VNum (Fin 0))] = Fin 0"
    "evaluate (arith_engine t) (Fin 4) ''g*2''
        [(''x'', x), (''G'', a), (''F'', b), (''g'', VNum (Fin 4))] = Fin 8"
    "evaluate (arith_engine t) (Fin 4) ''x+1''
        [(''x'', VNum (Fin 3)), (''G'', a), (''F'', b), (''g'', c)] = Fin 4" for t x a b c
    by (simp_all add: evaluate_def s arith_engine_def g f isFinite_def toFixed_def fixed_value_def)
  have 1: "getter_free cascade_calc"
    by (simp add: getter_free_def cascade_calc_def cascade_page_def html_input_def hasAttribute_def
        getAttribute_def)
  have 2: "plan cascade_calc = [(''G'', ''g*2''), (''F'', ''x+1'')]"
    by (simp add: plan_def planned_def map_filter_simps cascade_calc_def cascade_page_def el_defs
        formula_of_def)
  have 3: "\<not> quiet_cell cascade_calc ''F''"
    by (simp add: quiet_cell_def cascade_calc_def)
  have 6: "quiet_cell cascade_calc ''G''"
    by (simp add: quiet_cell_def cascade_calc_def no_change_listener_def listens_to_change_def
        is_toggle_def)
  have 4: "map_option inputValues (calculate arith_engine (Suc 0) cascade_calc) =
     Some [(''x'', VNum (Fin 3)), (''G'', VNum (Fin 0)), (''F'', VNum (Fin 4)), (''g'', VNum (Fin 4))]"
    by (simp add: cascade_calc_def cascade_page_def calc_defs el_defs e num_defs str_defs)
  have 5: "map_option inputValues
     (Option.bind (calculate arith_engine (Suc 0) cascade_calc) (calculate arith_engine (Suc 0))) =
     Some [(''x'', VNum (Fin 3)), (''G'', VNum (Fin 8)), (''F'', VNum (Fin 4)), (''g'', VNum (Fin 4))]"
    by (simp add: cascade_calc_def cascade_page_def calc_defs el_defs e num_defs str_defs)
  show ?thesis using 1 2 3 4 5 6 cascade_forward_only by (simp add: cascade_calc_def)
qed

end
